theory Spec2Isabelle
  imports Main "HOL-Library.Word"
begin

unbundle bit_operations_syntax

section \<open>Data model of the hellodrkey example\<close>

text \<open>
  The example program \<^verbatim>\<open>_examples/hellodrkey/hellodrkey.go\<close> is glue around the SCION
  libraries \<^verbatim>\<open>addr\<close>, \<^verbatim>\<open>drkey\<close>, \<^verbatim>\<open>drkey/protocol\<close>, \<^verbatim>\<open>sciond\<close> and \<^verbatim>\<open>snet\<close>. The data
  types below carry the fields the program reads and writes; the library functions it
  calls are parameters of the model (record \<open>Env\<close> further down).
\<close>

type_synonym byte = "8 word"
type_synonym int64 = "64 word"
type_synonym uint64 = "64 word"

subsection \<open>Addresses\<close>

type_synonym ISD = "16 word"
type_synonym AS = "64 word"

text \<open>\<^verbatim>\<open>addr.IA\<close>: an ISD number and an AS number.\<close>

datatype IA = IA ISD AS

type_synonym HostSVC = "16 word"

text \<open>
  \<^verbatim>\<open>addr.HostAddr\<close> is an interface; the values the program stores in it are a service
  address (\<^verbatim>\<open>l3 = hostSVC\<close>) or whatever \<^verbatim>\<open>addr.HostFromIPStr\<close> returns for an IP
  literal. The nil interface is \<open>None\<close> of \<open>HostAddr option\<close>.
\<close>

datatype HostAddr = HostSVC HostSVC | HostIPv4 "byte list" | HostIPv6 "byte list"

text \<open>\<^verbatim>\<open>snet.SCIONAddress{IA: ia, Host: l3}\<close>.\<close>

record SCIONAddress =
  IA_of :: IA
  Host :: "HostAddr option"

text \<open>The zero value \<^verbatim>\<open>snet.SCIONAddress{}\<close>.\<close>

definition zero_SCIONAddress :: SCIONAddress where
  "zero_SCIONAddress = \<lparr>IA_of = IA 0 0, Host = None\<rparr>"

subsection \<open>Errors and panics\<close>

text \<open>
  An error is either built by the program with \<^verbatim>\<open>fmt.Errorf(format, arg)\<close>, kept here as
  the format string and its argument, or comes out of a library call, kept as its message.
\<close>

datatype error = Errorf string string | LibError string

text \<open>
  A panic of the program: \<^verbatim>\<open>check\<close> panics with
  \<^verbatim>\<open>fmt.Sprintf("Fatal error: %v", e)\<close>, and a failed type assertion
  \<^verbatim>\<open>x.(T)\<close> panics in the runtime.
\<close>

datatype panic = Fatal_error error | Interface_conversion

datatype 'a res = Ok 'a | Panic panic

text \<open>
  \<^verbatim>\<open>check\<close>, applied to the error of a \<^verbatim>\<open>(value, err)\<close> pair: the value goes through
  when the error is nil.
\<close>

definition check :: "error + 'a \<Rightarrow> 'a res" where
  "check r = (case r of Inl e \<Rightarrow> Panic (Fatal_error e) | Inr v \<Rightarrow> Ok v)"

section \<open>The expression of the endpoint address parser\<close>

text \<open>
  \<^verbatim>\<open>addrRegexp = regexp.MustCompile(`^(\d+-[\d:A-Fa-f]+),\[([^\]]+)\]$`)\<close>.
  The expression is anchored on both sides and every repetition is followed by a
  character outside its class, so the match is the greedy scan below.
  \<^verbatim>\<open>FindStringSubmatch\<close> returns nil (\<open>None\<close>) when the text does not match, and
  otherwise the whole match followed by the two groups.
\<close>

definition is_digit :: "char \<Rightarrow> bool" where
  "is_digit c = (c \<in> set ''0123456789'')"

definition is_ia_char :: "char \<Rightarrow> bool" where
  "is_ia_char c = (c \<in> set ''0123456789:ABCDEFabcdef'')"

definition not_rbracket :: "char \<Rightarrow> bool" where
  "not_rbracket c = (c \<noteq> CHR '']'')"

definition addrRegexp_FindStringSubmatch :: "string \<Rightarrow> string list option" where
  "addrRegexp_FindStringSubmatch address =
     (let isd = takeWhile is_digit address; r1 = dropWhile is_digit address in
      if isd = [] then None
      else (case r1 of
          [] \<Rightarrow> None
        | c1 # r2 \<Rightarrow>
            if c1 \<noteq> CHR ''-'' then None
            else
              (let asn = takeWhile is_ia_char r2; r3 = dropWhile is_ia_char r2 in
               if asn = [] then None
               else (case r3 of
                   c2 # c3 # r4 \<Rightarrow>
                     if c2 = CHR '','' \<and> c3 = CHR ''[''
                     then
                       (let l3 = takeWhile not_rbracket r4; r5 = dropWhile not_rbracket r4 in
                        if l3 \<noteq> [] \<and> r5 = '']''
                        then Some [address, isd @ ''-'' @ asn, l3]
                        else None)
                     else None
                 | _ \<Rightarrow> None))))"

definition addrRegexpIaIndex :: nat where
  "addrRegexpIaIndex = 1"

definition addrRegexpL3Index :: nat where
  "addrRegexpL3Index = 2"

text \<open>
  What the regular expression says, written as a predicate: the text is
  \<open>ia @ '',['' @ l3 @ '']''\<close> with \<open>ia\<close> one or more digits, a dash and one or more
  characters of \<^verbatim>\<open>[\d:A-Fa-f]\<close>, and \<open>l3\<close> one or more characters other than \<^verbatim>\<open>]\<close>.
\<close>

definition ia_shape :: "string \<Rightarrow> bool" where
  "ia_shape ia =
     (\<exists>isd asn. ia = isd @ ''-'' @ asn \<and> isd \<noteq> [] \<and> list_all is_digit isd
        \<and> asn \<noteq> [] \<and> list_all is_ia_char asn)"

definition l3_shape :: "string \<Rightarrow> bool" where
  "l3_shape l3 = (l3 \<noteq> [] \<and> list_all not_rbracket l3)"

definition addrRegexp_matches :: "string \<Rightarrow> string \<Rightarrow> string \<Rightarrow> bool" where
  "addrRegexp_matches address ia l3 =
     (address = ia @ '',['' @ l3 @ '']'' \<and> ia_shape ia \<and> l3_shape l3)"

section \<open>Time, keys and the library the program calls\<close>

subsection \<open>Time\<close>

text \<open>
  A \<^verbatim>\<open>time.Time\<close> as the instant it denotes: seconds since the Unix epoch, nanoseconds
  within the second, and the location it is shown in. A \<^verbatim>\<open>time.Duration\<close> is a count of
  nanoseconds. The saturation of Go's arithmetic at the ends of its range and the
  monotonic clock reading are left out.
\<close>

datatype Location = Local | UTC_loc

record Time =
  unixSec :: int
  nsec :: nat
  loc :: Location

type_synonym Duration = int

definition Second :: Duration where
  "Second = 1000000000"

text \<open>\<^verbatim>\<open>time.Unix(sec, nsec)\<close>: the nanoseconds are brought into \<open>[0, 1e9)\<close>.\<close>

definition time_Unix :: "int64 \<Rightarrow> int \<Rightarrow> Time" where
  "time_Unix sec ns =
     \<lparr>unixSec = sint sec + ns div 1000000000, nsec = nat (ns mod 1000000000), loc = Local\<rparr>"

text \<open>\<^verbatim>\<open>t.UTC()\<close>, \<^verbatim>\<open>t.Unix()\<close> (an \<^verbatim>\<open>int64\<close>), \<^verbatim>\<open>t.Add(d)\<close> and \<^verbatim>\<open>t.Sub(u)\<close>.\<close>

definition UTC :: "Time \<Rightarrow> Time" where
  "UTC t = t\<lparr>loc := UTC_loc\<rparr>"

definition Unix :: "Time \<Rightarrow> int64" where
  "Unix t = word_of_int (unixSec t)"

definition Add :: "Time \<Rightarrow> Duration \<Rightarrow> Time" where
  "Add t d =
     t\<lparr>unixSec := unixSec t + (int (nsec t) + d) div 1000000000,
       nsec := nat ((int (nsec t) + d) mod 1000000000)\<rparr>"

definition Sub :: "Time \<Rightarrow> Time \<Rightarrow> Duration" where
  "Sub t u = (unixSec t - unixSec u) * 1000000000 + (int (nsec t) - int (nsec u))"

text \<open>The zero \<^verbatim>\<open>time.Time\<close> is January 1 of year 1, 00:00:00 UTC.\<close>

definition zero_Time :: Time where
  "zero_Time = \<lparr>unixSec = - 62135596800, nsec = 0, loc = UTC_loc\<rparr>"

text \<open>\<^verbatim>\<open>context.WithTimeout(context.Background(), d)\<close>.\<close>

datatype Context = Background | WithTimeout Context Duration

subsection \<open>Keys\<close>

text \<open>
  \<^verbatim>\<open>drkey.Epoch\<close> with its two bounds, \<^verbatim>\<open>drkey.Lvl2Meta\<close>, \<^verbatim>\<open>drkey.Lvl2Key\<close> (the
  metadata embedded, and the key) and \<^verbatim>\<open>drkey.DelegationSecret\<close>. A \<^verbatim>\<open>drkey.DRKey\<close> is
  a byte slice.
\<close>

record Epoch =
  NotBefore :: Time
  NotAfter :: Time

definition zero_Epoch :: Epoch where
  "zero_Epoch = \<lparr>NotBefore = zero_Time, NotAfter = zero_Time\<rparr>"

datatype Lvl2KeyType = AS2AS | AS2Host | Host2Host

type_synonym DRKey = "byte list"

record Lvl2Meta =
  KeyType :: Lvl2KeyType
  Protocol :: string
  Epoch :: Epoch
  SrcIA :: IA
  DstIA :: IA
  SrcHost :: "HostAddr option"
  DstHost :: "HostAddr option"

record Lvl2Key = Lvl2Meta +
  Key :: DRKey

record DelegationSecret =
  DS_Protocol :: string
  DS_Epoch :: Epoch
  DS_SrcIA :: IA
  DS_DstIA :: IA
  DS_Key :: DRKey

text \<open>
  An entry of \<^verbatim>\<open>protocol.KnownDerivations\<close> is a \<^verbatim>\<open>protocol.Derivation\<close>; the type
  assertion \<^verbatim>\<open>.(protocol.DelegatedDerivation)\<close> succeeds on the entries that also have
  \<^verbatim>\<open>DeriveLvl2FromDS\<close>.
\<close>

datatype Derivation =
    DelegatedDerivation "Lvl2Meta \<Rightarrow> DelegationSecret \<Rightarrow> error + Lvl2Key"
  | PlainDerivation

text \<open>The byte order in which the platform keeps an integer in memory.\<close>

datatype ByteOrder = LittleEndian | BigEndian

subsection \<open>The library\<close>

text \<open>
  The functions of the SCION \<^verbatim>\<open>addr\<close> package used by the parser. They are not part of
  the example and are parameters here: \<^verbatim>\<open>addr.IAFromString\<close> returns an IA or an
  error, \<^verbatim>\<open>addr.HostSVCFromString\<close> returns \<^verbatim>\<open>addr.SvcNone\<close> for a text that names no
  service, \<^verbatim>\<open>addr.HostFromIPStr\<close> returns nil for a text that is no IP literal.
\<close>

record AddrLib =
  IAFromString :: "string \<Rightarrow> error + IA"
  HostSVCFromString :: "string \<Rightarrow> HostSVC"
  SvcNone :: HostSVC
  HostFromIPStr :: "string \<Rightarrow> HostAddr option"

text \<open>
  The rest of the environment. \<open>'w\<close> is the state of everything outside the program (the
  daemon, the network, the clock) and \<open>'c\<close> a \<^verbatim>\<open>sciond.Connector\<close>.
  \<^item> \<open>Connect a\<close> is \<^verbatim>\<open>sciond.NewService(a).Connect(context.Background())\<close>;
  \<^item> \<open>DRKeyGetLvl2Key sd ctx meta t\<close> is the daemon call; a timeout of \<open>ctx\<close> comes back
    as an error like any other;
  \<^item> \<open>time_Now\<close> is \<^verbatim>\<open>time.Now()\<close>;
  \<^item> \<open>IAInt_IA\<close> is \<^verbatim>\<open>addr.IAInt(x).IA()\<close>;
  \<^item> \<open>KnownDerivations\<close> is the map \<^verbatim>\<open>protocol.KnownDerivations\<close>;
  \<^item> \<open>nativeEndian\<close> is the byte order of the platform the program is built for.
\<close>

record ('w, 'c) Env = AddrLib +
  Connect :: "string \<Rightarrow> 'w \<Rightarrow> (error + 'c) \<times> 'w"
  DRKeyGetLvl2Key :: "'c \<Rightarrow> Context \<Rightarrow> Lvl2Meta \<Rightarrow> Time \<Rightarrow> 'w \<Rightarrow> (error + Lvl2Key) \<times> 'w"
  time_Now :: "'w \<Rightarrow> Time \<times> 'w"
  IAInt_IA :: "uint64 \<Rightarrow> IA"
  KnownDerivations :: "string \<Rightarrow> Derivation option"
  nativeEndian :: ByteOrder

section \<open>The endpoint address parser: \<^verbatim>\<open>addrFromString\<close>\<close>

text \<open>
  \<^verbatim>\<open>addrFromString\<close> returns the pair \<^verbatim>\<open>(snet.SCIONAddress, error)\<close>; the nil error is
  \<open>None\<close>.
\<close>

definition addrFromString :: "'z AddrLib_scheme \<Rightarrow> string \<Rightarrow> SCIONAddress \<times> error option" where
  "addrFromString lib address =
     (case addrRegexp_FindStringSubmatch address of
        None \<Rightarrow> (zero_SCIONAddress, Some (Errorf ''no valid SCION address: %q'' address))
      | Some parts \<Rightarrow>
          (case IAFromString lib (parts ! addrRegexpIaIndex) of
             Inl err \<Rightarrow>
               (zero_SCIONAddress,
                Some (Errorf ''invalid IA string: %v'' (parts ! addrRegexpIaIndex)))
           | Inr ia \<Rightarrow>
               (let hostSVC = HostSVCFromString lib (parts ! addrRegexpL3Index) in
                if hostSVC \<noteq> SvcNone lib
                then (\<lparr>IA_of = ia, Host = Some (HostSVC hostSVC)\<rparr>, None)
                else
                  (case HostFromIPStr lib (parts ! addrRegexpL3Index) of
                     None \<Rightarrow>
                       (zero_SCIONAddress,
                        Some (Errorf ''invalid IP address string: %v''
                                (parts ! addrRegexpL3Index)))
                   | Some l3 \<Rightarrow> (\<lparr>IA_of = ia, Host = Some l3\<rparr>, None)))))"

section \<open>State of a run\<close>

text \<open>
  A run threads the outside world, the list of calls made to the daemon, and what was
  printed. A printed line is kept as the format string with its arguments.
\<close>

datatype 'c Event = EvConnect string | EvRequest 'c Context Lvl2Meta Time

datatype Arg = Str string | Ep Epoch | Dur Duration

datatype Output = Printf string "Arg list" | Println error | PrintDefaults

record ('w, 'c) State =
  world :: 'w
  trace :: "'c Event list"
  stdout :: "Output list"

definition sciond_Connect ::
  "('w, 'c) Env \<Rightarrow> string \<Rightarrow> ('w, 'c) State \<Rightarrow> (error + 'c) \<times> ('w, 'c) State" where
  "sciond_Connect env a s =
     (case Connect env a (world s) of
        (r, w) \<Rightarrow> (r, s\<lparr>world := w, trace := trace s @ [EvConnect a]\<rparr>))"

definition sciond_DRKeyGetLvl2Key ::
  "('w, 'c) Env \<Rightarrow> 'c \<Rightarrow> Context \<Rightarrow> Lvl2Meta \<Rightarrow> Time \<Rightarrow> ('w, 'c) State
     \<Rightarrow> (error + Lvl2Key) \<times> ('w, 'c) State" where
  "sciond_DRKeyGetLvl2Key env sd ctx meta t s =
     (case DRKeyGetLvl2Key env sd ctx meta t (world s) of
        (r, w) \<Rightarrow> (r, s\<lparr>world := w, trace := trace s @ [EvRequest sd ctx meta t]\<rparr>))"

definition Now :: "('w, 'c) Env \<Rightarrow> ('w, 'c) State \<Rightarrow> Time \<times> ('w, 'c) State" where
  "Now env s = (case time_Now env (world s) of (t, w) \<Rightarrow> (t, s\<lparr>world := w\<rparr>))"

definition fmt_Printf :: "string \<Rightarrow> Arg list \<Rightarrow> ('w, 'c) State \<Rightarrow> ('w, 'c) State" where
  "fmt_Printf f args s = s\<lparr>stdout := stdout s @ [Printf f args]\<rparr>"

text \<open>\<^verbatim>\<open>hex.EncodeToString\<close>: two lower-case hexadecimal digits for each byte.\<close>

definition hexdigit :: "nat \<Rightarrow> char" where
  "hexdigit n = ''0123456789abcdef'' ! n"

definition hex_EncodeToString :: "byte list \<Rightarrow> string" where
  "hex_EncodeToString bs =
     concat (map (\<lambda>b. [hexdigit (unat b div 16), hexdigit (unat b mod 16)]) bs)"

section \<open>The client and the server\<close>

text \<open>\<^verbatim>\<open>Client\<close> and \<^verbatim>\<open>Server\<close> are structs with the connector as their one field.\<close>

datatype 'c Client = Client 'c

datatype 'c Server = Server 'c

definition NewClient ::
  "('w, 'c) Env \<Rightarrow> string \<Rightarrow> ('w, 'c) State \<Rightarrow> 'c Client res \<times> ('w, 'c) State" where
  "NewClient env sciondAddr s =
     (case sciond_Connect env sciondAddr s of
        (r, s1) \<Rightarrow>
          (case check r of
             Panic p \<Rightarrow> (Panic p, s1)
           | Ok sciond \<Rightarrow> (Ok (Client sciond), s1)))"

fun HostKey ::
  "('w, 'c) Env \<Rightarrow> 'c Client \<Rightarrow> Lvl2Meta \<Rightarrow> ('w, 'c) State \<Rightarrow> Lvl2Key res \<times> ('w, 'c) State" where
  "HostKey env (Client sciond) meta s =
     (let ctx = WithTimeout Background (10 * Second) in
      case Now env s of
        (now, s1) \<Rightarrow>
          (case sciond_DRKeyGetLvl2Key env sciond ctx meta (UTC now) s1 of
             (r, s2) \<Rightarrow> (check r, s2)))"

definition ThisClientAndMeta ::
  "('w, 'c) Env \<Rightarrow> string \<Rightarrow> IA \<Rightarrow> HostAddr option \<Rightarrow> IA \<Rightarrow> HostAddr option
     \<Rightarrow> ('w, 'c) State \<Rightarrow> ('c Client \<times> Lvl2Meta) res \<times> ('w, 'c) State" where
  "ThisClientAndMeta env sciondAddr srcIA srcHost dstIA dstHost s =
     (case NewClient env sciondAddr s of
        (Panic p, s1) \<Rightarrow> (Panic p, s1)
      | (Ok c, s1) \<Rightarrow>
          (Ok (c, \<lparr>KeyType = Host2Host, Protocol = ''piskes'', Epoch = zero_Epoch,
                   SrcIA = srcIA, DstIA = dstIA, SrcHost = srcHost, DstHost = dstHost\<rparr>),
           s1))"

definition NewServer ::
  "('w, 'c) Env \<Rightarrow> string \<Rightarrow> ('w, 'c) State \<Rightarrow> 'c Server res \<times> ('w, 'c) State" where
  "NewServer env sciondAddr s =
     (case sciond_Connect env sciondAddr s of
        (r, s1) \<Rightarrow>
          (case check r of
             Panic p \<Rightarrow> (Panic p, s1)
           | Ok sciond \<Rightarrow> (Ok (Server sciond), s1)))"

text \<open>
  The metadata \<^verbatim>\<open>dsForServer\<close> sends and the delegation secret it builds from the first
  answer, as the two struct literals of the source.
\<close>

definition dsMeta_of :: "Lvl2Meta \<Rightarrow> Lvl2Meta" where
  "dsMeta_of meta =
     \<lparr>KeyType = AS2AS, Protocol = Protocol meta, Epoch = zero_Epoch,
      SrcIA = SrcIA meta, DstIA = DstIA meta, SrcHost = None, DstHost = None\<rparr>"

definition ds_of :: "Lvl2Key \<Rightarrow> DelegationSecret" where
  "ds_of lvl2Key =
     \<lparr>DS_Protocol = Protocol lvl2Key, DS_Epoch = Epoch lvl2Key,
      DS_SrcIA = SrcIA lvl2Key, DS_DstIA = DstIA lvl2Key, DS_Key = Key lvl2Key\<rparr>"

fun dsForServer ::
  "('w, 'c) Env \<Rightarrow> 'c Server \<Rightarrow> Lvl2Meta \<Rightarrow> ('w, 'c) State
     \<Rightarrow> DelegationSecret res \<times> ('w, 'c) State" where
  "dsForServer env (Server sciond) meta s =
     (let ctx = WithTimeout Background (10 * Second);
          dsMeta = dsMeta_of meta
      in
      case Now env s of
        (t, s1) \<Rightarrow>
          (let now = UTC t in
           case sciond_DRKeyGetLvl2Key env sciond ctx dsMeta now s1 of
             (r, s2) \<Rightarrow>
               (case check r of
                  Panic p \<Rightarrow> (Panic p, s2)
                | Ok lvl2Key \<Rightarrow>
                    (let s3 = fmt_Printf ''DS key = %s, epoch = %s\<newline>''
                                [Str (hex_EncodeToString (Key lvl2Key)), Ep (Epoch lvl2Key)] s2;
                         ds = ds_of lvl2Key;
                         next = Add (NotAfter (Epoch lvl2Key)) (1 * Second)
                     in
                     case sciond_DRKeyGetLvl2Key env sciond ctx dsMeta next s3 of
                       (rn, s4) \<Rightarrow>
                         (case check rn of
                            Panic p \<Rightarrow> (Panic p, s4)
                          | Ok lvl2KeyNext \<Rightarrow>
                              (let s5 = fmt_Printf ''Next DS key = %s, epoch = %s\<newline>''
                                          [Str (hex_EncodeToString (Key lvl2KeyNext)),
                                           Ep (Epoch lvl2KeyNext)] s4;
                                   prev = Add (NotBefore (Epoch lvl2Key)) (- 1 * Second)
                               in
                               case sciond_DRKeyGetLvl2Key env sciond ctx dsMeta prev s5 of
                                 (rp, s6) \<Rightarrow>
                                   (case check rp of
                                      Panic p \<Rightarrow> (Panic p, s6)
                                    | Ok lvl2KeyPrev \<Rightarrow>
                                        (Ok ds,
                                         fmt_Printf ''Prev DS key = %s, epoch = %s\<newline>''
                                           [Str (hex_EncodeToString (Key lvl2KeyPrev)),
                                            Ep (Epoch lvl2KeyPrev)] s6))))))))"

text \<open>
  \<^verbatim>\<open>HostKeyFromDS\<close>: the map lookup of a missing name gives the nil interface, on which
  the type assertion panics, as it does on an entry that is no delegated derivation.
\<close>

definition HostKeyFromDS ::
  "('w, 'c) Env \<Rightarrow> 'c Server \<Rightarrow> Lvl2Meta \<Rightarrow> DelegationSecret \<Rightarrow> Lvl2Key res" where
  "HostKeyFromDS env s meta ds =
     (case KnownDerivations env ''piskes'' of
        None \<Rightarrow> Panic Interface_conversion
      | Some PlainDerivation \<Rightarrow> Panic Interface_conversion
      | Some (DelegatedDerivation DeriveLvl2FromDS) \<Rightarrow> check (DeriveLvl2FromDS meta ds))"

definition ThisServerAndMeta ::
  "('w, 'c) Env \<Rightarrow> string \<Rightarrow> IA \<Rightarrow> HostAddr option \<Rightarrow> IA \<Rightarrow> HostAddr option
     \<Rightarrow> ('w, 'c) State \<Rightarrow> ('c Server \<times> Lvl2Meta) res \<times> ('w, 'c) State" where
  "ThisServerAndMeta env sciondAddr srcIA srcHost dstIA dstHost s =
     (case NewServer env sciondAddr s of
        (Panic p, s1) \<Rightarrow> (Panic p, s1)
      | (Ok server, s1) \<Rightarrow>
          (Ok (server, \<lparr>KeyType = Host2Host, Protocol = ''piskes'', Epoch = zero_Epoch,
                        SrcIA = srcIA, DstIA = dstIA, SrcHost = srcHost, DstHost = dstHost\<rparr>),
           s1))"

section \<open>The exported entry point: \<^verbatim>\<open>GetDelegationSecret\<close>\<close>

text \<open>
  The caller's memory is a map from addresses to bytes, and the three output pointers are
  addresses in it. A store of an \<^verbatim>\<open>int64\<close> writes its eight bytes in the platform's
  byte order.
\<close>

type_synonym memory = "nat \<Rightarrow> byte"

definition store_bytes :: "memory \<Rightarrow> nat \<Rightarrow> byte list \<Rightarrow> memory" where
  "store_bytes mem p bs = (\<lambda>a. if p \<le> a \<and> a < p + length bs then bs ! (a - p) else mem a)"

definition load_bytes :: "memory \<Rightarrow> nat \<Rightarrow> nat \<Rightarrow> byte list" where
  "load_bytes mem p n = map mem [p..<p + n]"

fun le_bytes_n :: "nat \<Rightarrow> int64 \<Rightarrow> byte list" where
  "le_bytes_n 0 v = []"
| "le_bytes_n (Suc n) v = ucast v # le_bytes_n n (drop_bit 8 v)"

definition le_bytes :: "int64 \<Rightarrow> byte list" where
  "le_bytes v = le_bytes_n 8 v"

definition le_value :: "byte list \<Rightarrow> int64" where
  "le_value bs = foldr (\<lambda>b acc. ucast b OR push_bit 8 acc) bs 0"

definition int64_bytes :: "ByteOrder \<Rightarrow> int64 \<Rightarrow> byte list" where
  "int64_bytes bo v = (case bo of LittleEndian \<Rightarrow> le_bytes v | BigEndian \<Rightarrow> rev (le_bytes v))"

definition bytes_int64 :: "ByteOrder \<Rightarrow> byte list \<Rightarrow> int64" where
  "bytes_int64 bo bs = (case bo of LittleEndian \<Rightarrow> le_value bs | BigEndian \<Rightarrow> le_value (rev bs))"

definition store_int64 :: "ByteOrder \<Rightarrow> memory \<Rightarrow> nat \<Rightarrow> int64 \<Rightarrow> memory" where
  "store_int64 bo mem p v = store_bytes mem p (int64_bytes bo v)"

definition load_int64 :: "ByteOrder \<Rightarrow> memory \<Rightarrow> nat \<Rightarrow> int64" where
  "load_int64 bo mem p = bytes_int64 bo (load_bytes mem p 8)"

text \<open>
  Go's \<^verbatim>\<open>copy(dst, src)\<close> for a destination slice of \<open>n\<close> bytes at address \<open>dst\<close>: it
  copies the shorter of the two lengths and returns that number.
\<close>

definition copy_bytes :: "memory \<Rightarrow> nat \<Rightarrow> nat \<Rightarrow> byte list \<Rightarrow> memory \<times> nat" where
  "copy_bytes mem dst n src = (store_bytes mem dst (take n src), min n (length src))"

text \<open>
  \<^verbatim>\<open>GetDelegationSecret\<close>. \<^verbatim>\<open>C.GoString(sciondAddr)\<close> is the text \<open>sciondAddr\<close>; the
  result is whether the call returned or panicked, the state of the run and the caller's
  memory.
\<close>

definition GetDelegationSecret ::
  "('w, 'c) Env \<Rightarrow> string \<Rightarrow> uint64 \<Rightarrow> uint64 \<Rightarrow> int64 \<Rightarrow> nat \<Rightarrow> nat \<Rightarrow> nat
     \<Rightarrow> ('w, 'c) State \<Rightarrow> memory \<Rightarrow> unit res \<times> ('w, 'c) State \<times> memory" where
  "GetDelegationSecret env sciondAddr srcIA dstIA valTime
       validityNotBefore validityNotAfter key s mem =
     (case sciond_Connect env sciondAddr s of
        (r, s1) \<Rightarrow>
          (case check r of
             Panic p \<Rightarrow> (Panic p, s1, mem)
           | Ok sd \<Rightarrow>
               (let ctx = WithTimeout Background (10 * Second);
                    dsMeta = \<lparr>KeyType = AS2AS, Protocol = ''piskes'', Epoch = zero_Epoch,
                              SrcIA = IAInt_IA env srcIA, DstIA = IAInt_IA env dstIA,
                              SrcHost = None, DstHost = None\<rparr>
                in
                case sciond_DRKeyGetLvl2Key env sd ctx dsMeta (UTC (time_Unix valTime 0)) s1 of
                  (r2, s2) \<Rightarrow>
                    (case check r2 of
                       Panic p \<Rightarrow> (Panic p, s2, mem)
                     | Ok lvl2Key \<Rightarrow>
                         (let mem1 = store_int64 (nativeEndian env) mem validityNotBefore
                                       (Unix (NotBefore (Epoch lvl2Key)));
                              mem2 = store_int64 (nativeEndian env) mem1 validityNotAfter
                                       (Unix (NotAfter (Epoch lvl2Key)));
                              mem3 = fst (copy_bytes mem2 key 16 (Key lvl2Key))
                          in (Ok (), s2, mem3))))))"

section \<open>The driver: \<^verbatim>\<open>main\<close>\<close>

text \<open>The values of the five flags after \<^verbatim>\<open>flag.Parse()\<close>, and their defaults.\<close>

record Flags =
  flag_client :: bool
  flag_server :: bool
  flag_sciond :: string
  flag_src :: string
  flag_dst :: string

definition default_Flags :: Flags where
  "default_Flags =
     \<lparr>flag_client = False, flag_server = False, flag_sciond = ''127.0.0.1:30255'',
      flag_src = ''1-ff00:0:111,[127.0.0.1]'',
      flag_dst = ''1-ff00:0:112,[fd00:f00d:cafe::7f00:a]''\<rparr>"

text \<open>
  The body of \<^verbatim>\<open>if clientRole { ... }\<close>; \<^verbatim>\<open>time.Since(t0)\<close> is \<^verbatim>\<open>time.Now().Sub(t0)\<close>.
  The key is used for the printed line only.
\<close>

definition client_role ::
  "('w, 'c) Env \<Rightarrow> string \<Rightarrow> SCIONAddress \<Rightarrow> SCIONAddress \<Rightarrow> ('w, 'c) State
     \<Rightarrow> unit res \<times> ('w, 'c) State" where
  "client_role env sciondAddr srcSCIONAddr dstSCIONAddr s =
     (case ThisClientAndMeta env sciondAddr (IA_of srcSCIONAddr) (Host srcSCIONAddr)
             (IA_of dstSCIONAddr) (Host dstSCIONAddr) s of
        (Panic p, s1) \<Rightarrow> (Panic p, s1)
      | (Ok (client, metaClient), s1) \<Rightarrow>
          (case Now env s1 of
             (t0, s2) \<Rightarrow>
               (case HostKey env client metaClient s2 of
                  (Panic p, s3) \<Rightarrow> (Panic p, s3)
                | (Ok clientKey, s3) \<Rightarrow>
                    (case Now env s3 of
                       (t1, s4) \<Rightarrow>
                         (Ok (),
                          fmt_Printf ''Client: key = %s, epoch = %s, duration = %s\<newline>''
                            [Str (hex_EncodeToString (Key clientKey)), Ep (Epoch clientKey),
                             Dur (Sub t1 t0)] s4)))))"

text \<open>The body of \<^verbatim>\<open>if serverRole { ... }\<close>.\<close>

definition server_role ::
  "('w, 'c) Env \<Rightarrow> string \<Rightarrow> SCIONAddress \<Rightarrow> SCIONAddress \<Rightarrow> ('w, 'c) State
     \<Rightarrow> unit res \<times> ('w, 'c) State" where
  "server_role env sciondAddr srcSCIONAddr dstSCIONAddr s =
     (case ThisServerAndMeta env sciondAddr (IA_of srcSCIONAddr) (Host srcSCIONAddr)
             (IA_of dstSCIONAddr) (Host dstSCIONAddr) s of
        (Panic p, s1) \<Rightarrow> (Panic p, s1)
      | (Ok (server, metaServer), s1) \<Rightarrow>
          (case dsForServer env server metaServer s1 of
             (Panic p, s2) \<Rightarrow> (Panic p, s2)
           | (Ok ds, s2) \<Rightarrow>
               (case Now env s2 of
                  (t0, s3) \<Rightarrow>
                    (case HostKeyFromDS env server metaServer ds of
                       Panic p \<Rightarrow> (Panic p, s3)
                     | Ok serverKey \<Rightarrow>
                         (case Now env s3 of
                            (t1, s4) \<Rightarrow>
                              (Ok (),
                               fmt_Printf ''Server: key = %s, epoch = %s, duration = %s\<newline>''
                                 [Str (hex_EncodeToString (Key serverKey)), Ep (DS_Epoch ds),
                                  Dur (Sub t1 t0)] s4))))))"

text \<open>
  How a run of \<^verbatim>\<open>main\<close> ends: it returns, it calls \<^verbatim>\<open>os.Exit\<close> with a status, or it
  panics.
\<close>

datatype Termination = Returned | Exited nat | Panicked panic

definition main :: "('w, 'c) Env \<Rightarrow> Flags \<Rightarrow> ('w, 'c) State \<Rightarrow> Termination \<times> ('w, 'c) State" where
  "main env flags s =
     (let (clientRole, serverRole) =
            (if \<not> flag_client flags \<and> \<not> flag_server flags then (True, True)
             else (flag_client flags, flag_server flags))
      in
      case addrFromString env (flag_src flags) of
        (srcSCIONAddr, Some err) \<Rightarrow>
          (Exited 1, s\<lparr>stdout := stdout s @ [Println err, PrintDefaults]\<rparr>)
      | (srcSCIONAddr, None) \<Rightarrow>
          (case addrFromString env (flag_dst flags) of
             (dstSCIONAddr, Some err) \<Rightarrow>
               (Exited 1, s\<lparr>stdout := stdout s @ [Println err, PrintDefaults]\<rparr>)
           | (dstSCIONAddr, None) \<Rightarrow>
               (case (if clientRole
                      then client_role env (flag_sciond flags) srcSCIONAddr dstSCIONAddr s
                      else (Ok (), s)) of
                  (Panic p, s1) \<Rightarrow> (Panicked p, s1)
                | (Ok _, s1) \<Rightarrow>
                    (case (if serverRole
                           then server_role env (flag_sciond flags) srcSCIONAddr dstSCIONAddr s1
                           else (Ok (), s1)) of
                       (Panic p, s2) \<Rightarrow> (Panicked p, s2)
                     | (Ok _, s2) \<Rightarrow> (Returned, s2)))))"

section \<open>The C callers\<close>

text \<open>
  Both C programs declare
  \<^verbatim>\<open>struct delegation_secret { int64_t validity_not_before; int64_t validity_not_after;
  unsigned char key[16]; }\<close>: 32 bytes, the fields at offsets 0, 8 and 16. \<open>ds\<close> is the
  address of the struct, and \<open>read_ds\<close> is what the programs print from it afterwards.
\<close>

record delegation_secret =
  validity_not_before :: int64
  validity_not_after :: int64
  key :: "byte list"

definition read_ds :: "ByteOrder \<Rightarrow> memory \<Rightarrow> nat \<Rightarrow> delegation_secret" where
  "read_ds bo mem ds =
     \<lparr>validity_not_before = load_int64 bo mem ds,
      validity_not_after = load_int64 bo mem (ds + 8),
      key = load_bytes mem (ds + 16) 16\<rparr>"

definition memset :: "memory \<Rightarrow> nat \<Rightarrow> byte \<Rightarrow> nat \<Rightarrow> memory" where
  "memset mem p c n = store_bytes mem p (replicate n c)"

definition memcpy :: "memory \<Rightarrow> nat \<Rightarrow> nat \<Rightarrow> nat \<Rightarrow> memory" where
  "memcpy mem dst src n = store_bytes mem dst (load_bytes mem src n)"

text \<open>
  \<^verbatim>\<open>hellolibdrkey.c\<close>, from the declaration of \<^verbatim>\<open>ds\<close> to the call: the struct is cleared
  and the addresses of its three fields are passed. \<open>t_now\<close> is the second read from the
  clock before.
\<close>

definition hellolibdrkey_main ::
  "('w, 'c) Env \<Rightarrow> int64 \<Rightarrow> nat \<Rightarrow> ('w, 'c) State \<Rightarrow> memory
     \<Rightarrow> unit res \<times> ('w, 'c) State \<times> memory" where
  "hellolibdrkey_main env t_now ds s mem =
     GetDelegationSecret env ''127.0.0.1:30255'' 0x0011ffaa00010d69 0x0011ffaa00010e97 t_now
       ds (ds + 8) (ds + 16) s (memset mem ds 0 32)"

text \<open>
  Modelled from the spec: the Go source of the packed-buffer variant of
  \<^verbatim>\<open>GetDelegationSecret\<close> is missing (only its C caller, the second C program, is there).
  The spec gives it the inputs and the behaviour of the variant above, with the outputs
  written into one contiguous buffer of 8 + 8 + 16 = 32 bytes instead of through three
  pointers: not-before at offset 0, not-after at offset 8 and the key at offset 16, the
  integers in the platform's byte order.
\<close>

definition GetDelegationSecret_packed ::
  "('w, 'c) Env \<Rightarrow> string \<Rightarrow> uint64 \<Rightarrow> uint64 \<Rightarrow> int64 \<Rightarrow> nat
     \<Rightarrow> ('w, 'c) State \<Rightarrow> memory \<Rightarrow> unit res \<times> ('w, 'c) State \<times> memory" where
  "GetDelegationSecret_packed env sciondAddr srcIA dstIA valTime buf s mem =
     (case sciond_Connect env sciondAddr s of
        (r, s1) \<Rightarrow>
          (case check r of
             Panic p \<Rightarrow> (Panic p, s1, mem)
           | Ok sd \<Rightarrow>
               (let ctx = WithTimeout Background (10 * Second);
                    dsMeta = \<lparr>KeyType = AS2AS, Protocol = ''piskes'', Epoch = zero_Epoch,
                              SrcIA = IAInt_IA env srcIA, DstIA = IAInt_IA env dstIA,
                              SrcHost = None, DstHost = None\<rparr>
                in
                case sciond_DRKeyGetLvl2Key env sd ctx dsMeta (UTC (time_Unix valTime 0)) s1 of
                  (r2, s2) \<Rightarrow>
                    (case check r2 of
                       Panic p \<Rightarrow> (Panic p, s2, mem)
                     | Ok lvl2Key \<Rightarrow>
                         (let mem1 = store_int64 (nativeEndian env) mem buf
                                       (Unix (NotBefore (Epoch lvl2Key)));
                              mem2 = store_int64 (nativeEndian env) mem1 (buf + 8)
                                       (Unix (NotAfter (Epoch lvl2Key)));
                              mem3 = fst (copy_bytes mem2 (buf + 16) 16 (Key lvl2Key))
                          in (Ok (), s2, mem3))))))"

text \<open>
  The second C program, from the declaration of \<^verbatim>\<open>ds\<close> to the last \<^verbatim>\<open>memcpy\<close>: the
  buffer \<^verbatim>\<open>ds_buf\<close> is cleared and passed, and its three parts are copied into the fields
  of the struct.
\<close>

definition packed_main ::
  "('w, 'c) Env \<Rightarrow> int64 \<Rightarrow> nat \<Rightarrow> nat \<Rightarrow> ('w, 'c) State \<Rightarrow> memory
     \<Rightarrow> unit res \<times> ('w, 'c) State \<times> memory" where
  "packed_main env t_now ds ds_buf s mem =
     (case GetDelegationSecret_packed env ''127.0.0.1:30255'' 0x0011ffaa00010d69
             0x0011ffaa00010e97 t_now ds_buf s (memset mem ds_buf 0 32) of
        (Panic p, s1, mem1) \<Rightarrow> (Panic p, s1, mem1)
      | (Ok _, s1, mem1) \<Rightarrow>
          (let mem2 = memcpy mem1 ds ds_buf 8;
               mem3 = memcpy mem2 (ds + 8) (ds_buf + 8) 8;
               mem4 = memcpy mem3 (ds + 16) (ds_buf + 16) 16
           in (Ok (), s1, mem4)))"

section \<open>Observations on a run\<close>

text \<open>
  Which role printed a line: the client role ends with its \<^verbatim>\<open>Client:\<close> line, the server
  role with its \<^verbatim>\<open>Server:\<close> line, and no other line starts like these.
\<close>

datatype Role = ClientRole | ServerRole

definition role_of :: "Output \<Rightarrow> Role option" where
  "role_of out =
     (case out of
        Printf f args \<Rightarrow>
          (if f = ''Client: key = %s, epoch = %s, duration = %s\<newline>'' then Some ClientRole
           else if f = ''Server: key = %s, epoch = %s, duration = %s\<newline>'' then Some ServerRole
           else None)
      | _ \<Rightarrow> None)"

definition roles_run :: "('w, 'c) State \<Rightarrow> Role list" where
  "roles_run s = List.map_filter role_of (stdout s)"

section \<open>A sample environment\<close>

text \<open>
  A small environment on which the theorems below are instantiated: a daemon at
  \<^verbatim>\<open>127.0.0.1:30255\<close> with epochs of one day and a key that names the day, a clock that
  advances by one second at each reading, an address library that knows the two default
  addresses of the driver, and a registry with the derivation \<^verbatim>\<open>piskes\<close> and a second one.
  It stands for no particular SCION installation.
\<close>

definition sample_IAFromString :: "string \<Rightarrow> error + IA" where
  "sample_IAFromString x =
     (if x = ''1-ff00:0:111'' then Inr (IA 1 0xff0000000111)
      else if x = ''1-ff00:0:112'' then Inr (IA 1 0xff0000000112)
      else Inl (LibError ''Invalid ISD-AS''))"

definition sample_HostSVCFromString :: "string \<Rightarrow> HostSVC" where
  "sample_HostSVCFromString x = (if x = ''CS'' then 2 else 0xffff)"

definition sample_HostFromIPStr :: "string \<Rightarrow> HostAddr option" where
  "sample_HostFromIPStr x =
     (if x = ''127.0.0.1'' then Some (HostIPv4 [127, 0, 0, 1])
      else if x = ''fd00:f00d:cafe::7f00:a''
      then Some (HostIPv6 [0xfd, 0, 0xf0, 0x0d, 0xca, 0xfe, 0, 0, 0, 0, 0, 0, 0x7f, 0, 0, 0x0a])
      else None)"

definition sample_Connect :: "string \<Rightarrow> nat \<Rightarrow> (error + string) \<times> nat" where
  "sample_Connect a w =
     (if a = ''127.0.0.1:30255'' then Inr a else Inl (LibError ''connection refused''), w)"

definition sample_DRKeyGetLvl2Key ::
  "string \<Rightarrow> Context \<Rightarrow> Lvl2Meta \<Rightarrow> Time \<Rightarrow> nat \<Rightarrow> (error + Lvl2Key) \<times> nat" where
  "sample_DRKeyGetLvl2Key sd ctx meta t w =
     (let day = unixSec t div 86400 in
      (Inr \<lparr>KeyType = KeyType meta, Protocol = Protocol meta,
            Epoch = \<lparr>NotBefore = \<lparr>unixSec = day * 86400, nsec = 0, loc = UTC_loc\<rparr>,
                     NotAfter = \<lparr>unixSec = (day + 1) * 86400, nsec = 0, loc = UTC_loc\<rparr>\<rparr>,
            SrcIA = SrcIA meta, DstIA = DstIA meta,
            SrcHost = SrcHost meta, DstHost = DstHost meta,
            Key = replicate 16 (word_of_int day)\<rparr>, w))"

definition sample_time_Now :: "nat \<Rightarrow> Time \<times> nat" where
  "sample_time_Now w = (\<lparr>unixSec = 1600000000 + int w, nsec = 0, loc = Local\<rparr>, Suc w)"

definition sample_IAInt_IA :: "uint64 \<Rightarrow> IA" where
  "sample_IAInt_IA x = IA (ucast (drop_bit 48 x)) (take_bit 48 x)"

definition sample_piskes :: "Lvl2Meta \<Rightarrow> DelegationSecret \<Rightarrow> error + Lvl2Key" where
  "sample_piskes meta ds =
     (if KeyType meta = AS2AS then Inl (LibError ''Unknown DRKey type'')
      else Inr \<lparr>KeyType = KeyType meta, Protocol = Protocol meta, Epoch = DS_Epoch ds,
                SrcIA = SrcIA meta, DstIA = DstIA meta,
                SrcHost = SrcHost meta, DstHost = DstHost meta,
                Key = map (\<lambda>b. b + 1) (DS_Key ds)\<rparr>)"

definition sample_other :: "Lvl2Meta \<Rightarrow> DelegationSecret \<Rightarrow> error + Lvl2Key" where
  "sample_other meta ds =
     Inr \<lparr>KeyType = KeyType meta, Protocol = Protocol meta, Epoch = DS_Epoch ds,
          SrcIA = SrcIA meta, DstIA = DstIA meta,
          SrcHost = SrcHost meta, DstHost = DstHost meta,
          Key = rev (DS_Key ds)\<rparr>"

definition sample_KnownDerivations :: "string \<Rightarrow> Derivation option" where
  "sample_KnownDerivations name =
     (if name = ''piskes'' then Some (DelegatedDerivation sample_piskes)
      else if name = ''other'' then Some (DelegatedDerivation sample_other)
      else None)"

definition sample_env :: "(nat, string) Env" where
  "sample_env =
     \<lparr>IAFromString = sample_IAFromString,
      HostSVCFromString = sample_HostSVCFromString,
      SvcNone = 0xffff,
      HostFromIPStr = sample_HostFromIPStr,
      Connect = sample_Connect,
      DRKeyGetLvl2Key = sample_DRKeyGetLvl2Key,
      time_Now = sample_time_Now,
      IAInt_IA = sample_IAInt_IA,
      KnownDerivations = sample_KnownDerivations,
      nativeEndian = LittleEndian\<rparr>"

text \<open>The same environment with a daemon whose keys have \<open>n\<close> bytes.\<close>

definition sample_env_keylen :: "nat \<Rightarrow> (nat, string) Env" where
  "sample_env_keylen n =
     sample_env\<lparr>DRKeyGetLvl2Key :=
       (\<lambda>sd ctx meta t w.
          (Inr \<lparr>KeyType = KeyType meta, Protocol = Protocol meta,
                Epoch = \<lparr>NotBefore = t, NotAfter = Add t (3600 * Second)\<rparr>,
                SrcIA = SrcIA meta, DstIA = DstIA meta,
                SrcHost = SrcHost meta, DstHost = DstHost meta,
                Key = map of_nat [1..<Suc n]\<rparr>, w))\<rparr>"

text \<open>The same environment with a daemon that answers no request in time.\<close>

definition sample_env_timeout :: "(nat, string) Env" where
  "sample_env_timeout =
     sample_env\<lparr>DRKeyGetLvl2Key :=
       (\<lambda>sd ctx meta t w. (Inl (LibError ''context deadline exceeded''), w))\<rparr>"

definition sample_state :: "(nat, string) State" where
  "sample_state = \<lparr>world = 0, trace = [], stdout = []\<rparr>"

definition sample_memory :: memory where
  "sample_memory = (\<lambda>a. 0xaa)"

section \<open>Lemmas on memory and time\<close>

lemma store_bytes_outside:
  "a < p \<or> p + length bs \<le> a \<Longrightarrow> store_bytes mem p bs a = mem a"
  by (auto simp: store_bytes_def)

lemma store_bytes_inside:
  "i < length bs \<Longrightarrow> store_bytes mem p bs (p + i) = bs ! i"
  by (simp add: store_bytes_def)

lemma load_bytes_store_bytes_same:
  "load_bytes (store_bytes mem p bs) p (length bs) = bs"
  by (rule nth_equalityI) (simp_all add: load_bytes_def store_bytes_def)

lemma load_bytes_store_bytes_disjoint:
  "q + n \<le> p \<or> p + length bs \<le> q \<Longrightarrow>
     load_bytes (store_bytes mem p bs) q n = load_bytes mem q n"
  by (auto simp: load_bytes_def store_bytes_def)

lemma le_value_Cons: "le_value (b # bs) = ucast b OR push_bit 8 (le_value bs)"
  by (simp add: le_value_def)

lemma le_value_le_bytes_n: "le_value (le_bytes_n n v) = take_bit (8 * n) v"
proof (induction n arbitrary: v)
  case 0
  show ?case by (simp add: le_value_def)
next
  case (Suc n)
  show ?case
    unfolding le_bytes_n.simps le_value_Cons Suc.IH
    by (rule bit_word_eqI) (auto simp add: bit_simps)
qed

lemma le_value_le_bytes: "le_value (le_bytes v) = v"
  unfolding le_bytes_def le_value_le_bytes_n
  by (rule bit_word_eqI) (simp add: bit_simps)

lemma length_le_bytes_n: "length (le_bytes_n n v) = n"
  by (induction n arbitrary: v) simp_all

lemma length_int64_bytes: "length (int64_bytes bo v) = 8"
  by (cases bo) (simp_all add: int64_bytes_def le_bytes_def length_le_bytes_n)

lemma bytes_int64_int64_bytes: "bytes_int64 bo (int64_bytes bo v) = v"
  by (cases bo) (simp_all add: int64_bytes_def bytes_int64_def le_value_le_bytes)

lemma load_int64_store_int64_same: "load_int64 bo (store_int64 bo mem p v) p = v"
  using load_bytes_store_bytes_same [of mem p "int64_bytes bo v"]
  by (simp add: load_int64_def store_int64_def length_int64_bytes bytes_int64_int64_bytes)

lemma load_int64_store_bytes_disjoint:
  "q + 8 \<le> p \<or> p + length bs \<le> q \<Longrightarrow>
     load_int64 bo (store_bytes mem p bs) q = load_int64 bo mem q"
  by (simp add: load_int64_def load_bytes_store_bytes_disjoint)

lemma load_int64_store_int64_disjoint:
  "q + 8 \<le> p \<or> p + 8 \<le> q \<Longrightarrow>
     load_int64 bo (store_int64 bo' mem p v) q = load_int64 bo mem q"
  by (simp add: store_int64_def load_int64_store_bytes_disjoint length_int64_bytes)

lemma store_int64_outside:
  "a < p \<or> p + 8 \<le> a \<Longrightarrow> store_int64 bo mem p v a = mem a"
  by (simp add: store_int64_def store_bytes_outside length_int64_bytes)

lemma time_Unix_0: "UTC (time_Unix v 0) = \<lparr>unixSec = sint v, nsec = 0, loc = UTC_loc\<rparr>"
  by (simp add: UTC_def time_Unix_def)

lemma sint_Unix:
  "- (2 ^ 63) \<le> unixSec t \<Longrightarrow> unixSec t < 2 ^ 63 \<Longrightarrow> sint (Unix t) = unixSec t"
  unfolding Unix_def by (simp add: sint_sbintrunc' signed_take_bit_int_eq_self)

section \<open>Properties of the exported entry point\<close>

text \<open>What a call of \<^verbatim>\<open>GetDelegationSecret\<close> that returns has done.\<close>

lemma GetDelegationSecret_Ok:
  assumes "GetDelegationSecret env sciondAddr srcIA dstIA valTime pnb pna pkey s mem
             = (Ok (), s', mem')"
  obtains sd w1 lvl2Key where
    "Connect env sciondAddr (world s) = (Inr sd, w1)"
    "DRKeyGetLvl2Key env sd (WithTimeout Background (10 * Second))
        \<lparr>KeyType = AS2AS, Protocol = ''piskes'', Epoch = zero_Epoch,
         SrcIA = IAInt_IA env srcIA, DstIA = IAInt_IA env dstIA,
         SrcHost = None, DstHost = None\<rparr>
        (UTC (time_Unix valTime 0)) w1 = (Inr lvl2Key, world s')"
    "trace s' = trace s @
       [EvConnect sciondAddr,
        EvRequest sd (WithTimeout Background (10 * Second))
          \<lparr>KeyType = AS2AS, Protocol = ''piskes'', Epoch = zero_Epoch,
           SrcIA = IAInt_IA env srcIA, DstIA = IAInt_IA env dstIA,
           SrcHost = None, DstHost = None\<rparr>
          (UTC (time_Unix valTime 0))]"
    "stdout s' = stdout s"
    "mem' = store_bytes
              (store_int64 (nativeEndian env)
                 (store_int64 (nativeEndian env) mem pnb (Unix (NotBefore (Epoch lvl2Key))))
                 pna (Unix (NotAfter (Epoch lvl2Key))))
              pkey (take 16 (Key lvl2Key))"
  using assms
  by (auto simp: GetDelegationSecret_def sciond_Connect_def sciond_DRKeyGetLvl2Key_def
      check_def copy_bytes_def Let_def split: prod.splits sum.splits)

lemmas sample_defs = sample_env_def sample_state_def sample_Connect_def
  sample_DRKeyGetLvl2Key_def sample_IAInt_IA_def sample_time_Now_def

text \<open>
  Claim C1. A call of \<^verbatim>\<open>GetDelegationSecret\<close> that returns has connected to the daemon at
  \<open>sciondAddr\<close> and has sent it one request: under a timeout of ten seconds, for the
  AS-to-AS key of protocol \<^verbatim>\<open>piskes\<close> between the two IAs decoded from \<open>srcIA\<close> and
  \<open>dstIA\<close>, valid at the Unix second \<open>valTime\<close> in UTC. The caller's memory is the old one
  with the second of the epoch's not-before stored at the first pointer, the second of its
  not-after at the second pointer, and the key at the third. Where the three locations do
  not overlap, reading them back gives these two seconds as 64-bit integers (signed: a
  second within the range of \<^verbatim>\<open>int64\<close> is read back as it is) and, for a key of 16
  bytes, the key.
\<close>

theorem GetDelegationSecret_success:
  assumes run: "GetDelegationSecret env sciondAddr srcIA dstIA valTime pnb pna pkey s mem
                  = (Ok (), s', mem')"
  shows "\<exists>sd w1 lvl2Key.
      Connect env sciondAddr (world s) = (Inr sd, w1)
    \<and> DRKeyGetLvl2Key env sd (WithTimeout Background (10 * Second))
        \<lparr>KeyType = AS2AS, Protocol = ''piskes'', Epoch = zero_Epoch,
         SrcIA = IAInt_IA env srcIA, DstIA = IAInt_IA env dstIA,
         SrcHost = None, DstHost = None\<rparr>
        \<lparr>unixSec = sint valTime, nsec = 0, loc = UTC_loc\<rparr> w1 = (Inr lvl2Key, world s')
    \<and> trace s' = trace s @
        [EvConnect sciondAddr,
         EvRequest sd (WithTimeout Background (10 * Second))
           \<lparr>KeyType = AS2AS, Protocol = ''piskes'', Epoch = zero_Epoch,
            SrcIA = IAInt_IA env srcIA, DstIA = IAInt_IA env dstIA,
            SrcHost = None, DstHost = None\<rparr>
           \<lparr>unixSec = sint valTime, nsec = 0, loc = UTC_loc\<rparr>]
    \<and> mem' = store_bytes
               (store_int64 (nativeEndian env)
                  (store_int64 (nativeEndian env) mem pnb (Unix (NotBefore (Epoch lvl2Key))))
                  pna (Unix (NotAfter (Epoch lvl2Key))))
               pkey (take 16 (Key lvl2Key))
    \<and> ((pnb + 8 \<le> pna \<or> pna + 8 \<le> pnb) \<and> (pnb + 8 \<le> pkey \<or> pkey + 16 \<le> pnb)
         \<and> (pna + 8 \<le> pkey \<or> pkey + 16 \<le> pna) \<longrightarrow>
          load_int64 (nativeEndian env) mem' pnb = word_of_int (unixSec (NotBefore (Epoch lvl2Key)))
        \<and> load_int64 (nativeEndian env) mem' pna = word_of_int (unixSec (NotAfter (Epoch lvl2Key)))
        \<and> (- (2 ^ 63) \<le> unixSec (NotBefore (Epoch lvl2Key))
             \<and> unixSec (NotBefore (Epoch lvl2Key)) < 2 ^ 63 \<longrightarrow>
             sint (load_int64 (nativeEndian env) mem' pnb) = unixSec (NotBefore (Epoch lvl2Key)))
        \<and> (- (2 ^ 63) \<le> unixSec (NotAfter (Epoch lvl2Key))
             \<and> unixSec (NotAfter (Epoch lvl2Key)) < 2 ^ 63 \<longrightarrow>
             sint (load_int64 (nativeEndian env) mem' pna) = unixSec (NotAfter (Epoch lvl2Key)))
        \<and> (length (Key lvl2Key) = 16 \<longrightarrow> load_bytes mem' pkey 16 = Key lvl2Key))"
proof -
  from run obtain sd w1 lvl2Key where
    c: "Connect env sciondAddr (world s) = (Inr sd, w1)" and
    r: "DRKeyGetLvl2Key env sd (WithTimeout Background (10 * Second))
        \<lparr>KeyType = AS2AS, Protocol = ''piskes'', Epoch = zero_Epoch,
         SrcIA = IAInt_IA env srcIA, DstIA = IAInt_IA env dstIA,
         SrcHost = None, DstHost = None\<rparr>
        (UTC (time_Unix valTime 0)) w1 = (Inr lvl2Key, world s')" and
    t: "trace s' = trace s @
       [EvConnect sciondAddr,
        EvRequest sd (WithTimeout Background (10 * Second))
          \<lparr>KeyType = AS2AS, Protocol = ''piskes'', Epoch = zero_Epoch,
           SrcIA = IAInt_IA env srcIA, DstIA = IAInt_IA env dstIA,
           SrcHost = None, DstHost = None\<rparr>
          (UTC (time_Unix valTime 0))]" and
    m: "mem' = store_bytes
              (store_int64 (nativeEndian env)
                 (store_int64 (nativeEndian env) mem pnb (Unix (NotBefore (Epoch lvl2Key))))
                 pna (Unix (NotAfter (Epoch lvl2Key))))
              pkey (take 16 (Key lvl2Key))"
    by (rule GetDelegationSecret_Ok)
  have rd: "load_int64 (nativeEndian env) mem' pnb = word_of_int (unixSec (NotBefore (Epoch lvl2Key)))
        \<and> load_int64 (nativeEndian env) mem' pna = word_of_int (unixSec (NotAfter (Epoch lvl2Key)))
        \<and> (- (2 ^ 63) \<le> unixSec (NotBefore (Epoch lvl2Key))
             \<and> unixSec (NotBefore (Epoch lvl2Key)) < 2 ^ 63 \<longrightarrow>
             sint (load_int64 (nativeEndian env) mem' pnb) = unixSec (NotBefore (Epoch lvl2Key)))
        \<and> (- (2 ^ 63) \<le> unixSec (NotAfter (Epoch lvl2Key))
             \<and> unixSec (NotAfter (Epoch lvl2Key)) < 2 ^ 63 \<longrightarrow>
             sint (load_int64 (nativeEndian env) mem' pna) = unixSec (NotAfter (Epoch lvl2Key)))
        \<and> (length (Key lvl2Key) = 16 \<longrightarrow> load_bytes mem' pkey 16 = Key lvl2Key)"
    if d: "(pnb + 8 \<le> pna \<or> pna + 8 \<le> pnb) \<and> (pnb + 8 \<le> pkey \<or> pkey + 16 \<le> pnb)
         \<and> (pna + 8 \<le> pkey \<or> pkey + 16 \<le> pna)"
  proof (intro conjI impI)
    have l: "length (take 16 (Key lvl2Key)) \<le> 16" by simp
    from d l have d1: "pnb + 8 \<le> pkey \<or> pkey + length (take 16 (Key lvl2Key)) \<le> pnb"
      and d2: "pna + 8 \<le> pkey \<or> pkey + length (take 16 (Key lvl2Key)) \<le> pna"
      by linarith+
    from d have d3: "pnb + 8 \<le> pna \<or> pna + 8 \<le> pnb" by simp
    show nb: "load_int64 (nativeEndian env) mem' pnb
                = word_of_int (unixSec (NotBefore (Epoch lvl2Key)))"
      unfolding m
      by (simp only: load_int64_store_bytes_disjoint [OF d1]
          load_int64_store_int64_disjoint [OF d3] load_int64_store_int64_same Unix_def)
    show na: "load_int64 (nativeEndian env) mem' pna
                = word_of_int (unixSec (NotAfter (Epoch lvl2Key)))"
      unfolding m
      by (simp only: load_int64_store_bytes_disjoint [OF d2] load_int64_store_int64_same Unix_def)
    show "sint (load_int64 (nativeEndian env) mem' pnb) = unixSec (NotBefore (Epoch lvl2Key))"
      if "- (2 ^ 63) \<le> unixSec (NotBefore (Epoch lvl2Key))
             \<and> unixSec (NotBefore (Epoch lvl2Key)) < 2 ^ 63"
      using that sint_Unix [of "NotBefore (Epoch lvl2Key)"] by (simp add: nb Unix_def)
    show "sint (load_int64 (nativeEndian env) mem' pna) = unixSec (NotAfter (Epoch lvl2Key))"
      if "- (2 ^ 63) \<le> unixSec (NotAfter (Epoch lvl2Key))
             \<and> unixSec (NotAfter (Epoch lvl2Key)) < 2 ^ 63"
      using that sint_Unix [of "NotAfter (Epoch lvl2Key)"] by (simp add: na Unix_def)
    assume k: "length (Key lvl2Key) = 16"
    then have "take 16 (Key lvl2Key) = Key lvl2Key" by simp
    with load_bytes_store_bytes_same [of _ pkey "Key lvl2Key"] k
    show "load_bytes mem' pkey 16 = Key lvl2Key"
      unfolding m by simp
  qed
  from c r t m rd show ?thesis
    unfolding time_Unix_0 by blast
qed

theorem GetDelegationSecret_success_witness:
  "\<exists>s' mem'.
     GetDelegationSecret sample_env ''127.0.0.1:30255'' 0x0011ffaa00010d69 0x0011ffaa00010e97
       1600000000 100 108 116 sample_state sample_memory = (Ok (), s', mem')
   \<and> load_int64 LittleEndian mem' 100 = 1599955200
   \<and> load_int64 LittleEndian mem' 108 = 1600041600
   \<and> sint (load_int64 LittleEndian mem' 100) = 1599955200
   \<and> load_bytes mem' 116 16 = replicate 16 86"
proof -
  have "fst (GetDelegationSecret sample_env ''127.0.0.1:30255'' 0x0011ffaa00010d69
          0x0011ffaa00010e97 1600000000 100 108 116 sample_state sample_memory) = Ok ()"
    by (simp add: GetDelegationSecret_def sciond_Connect_def sciond_DRKeyGetLvl2Key_def
        check_def sample_defs Let_def)
  then obtain s' mem' where run:
    "GetDelegationSecret sample_env ''127.0.0.1:30255'' 0x0011ffaa00010d69 0x0011ffaa00010e97
       1600000000 100 108 116 sample_state sample_memory = (Ok (), s', mem')"
    by (metis prod.collapse)
  from GetDelegationSecret_success [OF run]
  have "load_int64 LittleEndian mem' 100 = 1599955200
   \<and> load_int64 LittleEndian mem' 108 = 1600041600
   \<and> sint (load_int64 LittleEndian mem' 100) = 1599955200
   \<and> load_bytes mem' 116 16 = replicate 16 86"
    by (auto simp: sample_defs Let_def)
  with run show ?thesis by blast
qed

text \<open>
  Claim C10. A call of \<^verbatim>\<open>GetDelegationSecret\<close> that returns has copied the first
  \<open>n = min 16 (length key)\<close> bytes of the key the daemon returned to the key pointer, and
  nothing else through it: a longer key is cut to 16 bytes, and every address outside these
  \<open>n\<close> bytes holds what the two integer stores left there, so that the bytes of the
  caller's buffer behind a shorter key keep their old values.
\<close>

theorem GetDelegationSecret_key_copy:
  assumes run: "GetDelegationSecret env sciondAddr srcIA dstIA valTime pnb pna pkey s mem
                  = (Ok (), s', mem')"
  shows "\<exists>sd w1 lvl2Key n.
      Connect env sciondAddr (world s) = (Inr sd, w1)
    \<and> DRKeyGetLvl2Key env sd (WithTimeout Background (10 * Second))
        \<lparr>KeyType = AS2AS, Protocol = ''piskes'', Epoch = zero_Epoch,
         SrcIA = IAInt_IA env srcIA, DstIA = IAInt_IA env dstIA,
         SrcHost = None, DstHost = None\<rparr>
        (UTC (time_Unix valTime 0)) w1 = (Inr lvl2Key, world s')
    \<and> n = min 16 (length (Key lvl2Key))
    \<and> (\<forall>i<n. mem' (pkey + i) = Key lvl2Key ! i)
    \<and> (\<forall>a. a < pkey \<or> pkey + n \<le> a \<longrightarrow>
          mem' a = store_int64 (nativeEndian env)
                     (store_int64 (nativeEndian env) mem pnb (Unix (NotBefore (Epoch lvl2Key))))
                     pna (Unix (NotAfter (Epoch lvl2Key))) a)
    \<and> (\<forall>a. (a < pkey \<or> pkey + n \<le> a) \<and> (a < pnb \<or> pnb + 8 \<le> a)
            \<and> (a < pna \<or> pna + 8 \<le> a) \<longrightarrow> mem' a = mem a)"
proof -
  from run obtain sd w1 lvl2Key where
    c: "Connect env sciondAddr (world s) = (Inr sd, w1)" and
    r: "DRKeyGetLvl2Key env sd (WithTimeout Background (10 * Second))
        \<lparr>KeyType = AS2AS, Protocol = ''piskes'', Epoch = zero_Epoch,
         SrcIA = IAInt_IA env srcIA, DstIA = IAInt_IA env dstIA,
         SrcHost = None, DstHost = None\<rparr>
        (UTC (time_Unix valTime 0)) w1 = (Inr lvl2Key, world s')" and
    m: "mem' = store_bytes
              (store_int64 (nativeEndian env)
                 (store_int64 (nativeEndian env) mem pnb (Unix (NotBefore (Epoch lvl2Key))))
                 pna (Unix (NotAfter (Epoch lvl2Key))))
              pkey (take 16 (Key lvl2Key))"
    by (rule GetDelegationSecret_Ok)
  define n where "n = min 16 (length (Key lvl2Key))"
  have len: "length (take 16 (Key lvl2Key)) = n"
    by (simp add: n_def min.commute)
  have inside: "\<forall>i<n. mem' (pkey + i) = Key lvl2Key ! i"
  proof (intro allI impI)
    fix i assume i: "i < n"
    with len have "store_bytes
              (store_int64 (nativeEndian env)
                 (store_int64 (nativeEndian env) mem pnb (Unix (NotBefore (Epoch lvl2Key))))
                 pna (Unix (NotAfter (Epoch lvl2Key))))
              pkey (take 16 (Key lvl2Key)) (pkey + i) = take 16 (Key lvl2Key) ! i"
      by (intro store_bytes_inside) simp
    moreover from i have "take 16 (Key lvl2Key) ! i = Key lvl2Key ! i"
      by (simp add: n_def)
    ultimately show "mem' (pkey + i) = Key lvl2Key ! i"
      unfolding m by simp
  qed
  have outside: "\<forall>a. a < pkey \<or> pkey + n \<le> a \<longrightarrow>
          mem' a = store_int64 (nativeEndian env)
                     (store_int64 (nativeEndian env) mem pnb (Unix (NotBefore (Epoch lvl2Key))))
                     pna (Unix (NotAfter (Epoch lvl2Key))) a"
    unfolding m using len by (simp add: store_bytes_outside)
  have frame: "\<forall>a. (a < pkey \<or> pkey + n \<le> a) \<and> (a < pnb \<or> pnb + 8 \<le> a)
            \<and> (a < pna \<or> pna + 8 \<le> a) \<longrightarrow> mem' a = mem a"
  proof (intro allI impI)
    fix a
    assume a: "(a < pkey \<or> pkey + n \<le> a) \<and> (a < pnb \<or> pnb + 8 \<le> a)
            \<and> (a < pna \<or> pna + 8 \<le> a)"
    with outside have "mem' a = store_int64 (nativeEndian env)
                     (store_int64 (nativeEndian env) mem pnb (Unix (NotBefore (Epoch lvl2Key))))
                     pna (Unix (NotAfter (Epoch lvl2Key))) a"
      by blast
    also from a have "\<dots> = store_int64 (nativeEndian env) mem pnb
                              (Unix (NotBefore (Epoch lvl2Key))) a"
      by (intro store_int64_outside) simp
    also from a have "\<dots> = mem a"
      by (intro store_int64_outside) simp
    finally show "mem' a = mem a" .
  qed
  from c r inside outside frame n_def show ?thesis by blast
qed

theorem GetDelegationSecret_key_copy_witness:
  "\<exists>s' mem'.
     GetDelegationSecret (sample_env_keylen 3) ''127.0.0.1:30255'' 1 2 1600000000 100 108 116
       sample_state sample_memory = (Ok (), s', mem')
   \<and> mem' 116 = 1 \<and> mem' 117 = 2 \<and> mem' 118 = 3 \<and> mem' 119 = 0xaa \<and> mem' 131 = 0xaa"
proof -
  have "fst (GetDelegationSecret (sample_env_keylen 3) ''127.0.0.1:30255'' 1 2 1600000000
          100 108 116 sample_state sample_memory) = Ok ()"
    by (simp add: GetDelegationSecret_def sciond_Connect_def sciond_DRKeyGetLvl2Key_def
        check_def sample_env_keylen_def sample_defs Let_def)
  then obtain s' mem' where run:
    "GetDelegationSecret (sample_env_keylen 3) ''127.0.0.1:30255'' 1 2 1600000000 100 108 116
       sample_state sample_memory = (Ok (), s', mem')"
    by (metis prod.collapse)
  from GetDelegationSecret_key_copy [OF run] obtain sd w1 lvl2Key n where
    r: "DRKeyGetLvl2Key (sample_env_keylen 3) sd (WithTimeout Background (10 * Second))
        \<lparr>KeyType = AS2AS, Protocol = ''piskes'', Epoch = zero_Epoch,
         SrcIA = IAInt_IA (sample_env_keylen 3) 1, DstIA = IAInt_IA (sample_env_keylen 3) 2,
         SrcHost = None, DstHost = None\<rparr>
        (UTC (time_Unix 1600000000 0)) w1 = (Inr lvl2Key, world s')"
    and n: "n = min 16 (length (Key lvl2Key))"
    and i: "\<forall>i<n. mem' (116 + i) = Key lvl2Key ! i"
    and f: "\<forall>a. (a < 116 \<or> 116 + n \<le> a) \<and> (a < 100 \<or> 100 + 8 \<le> a)
            \<and> (a < 108 \<or> 108 + 8 \<le> a) \<longrightarrow> mem' a = sample_memory a"
    by blast
  from r have k: "Key lvl2Key = [1, 2, 3]"
    by (auto simp: sample_env_keylen_def sample_defs upt_rec)
  from k n have n3: "n = 3" by simp
  from i n3 have i3: "mem' (116 + j) = Key lvl2Key ! j" if "j < 3" for j
    using that by simp
  from i3 [of 0] i3 [of 1] i3 [of 2] k
  have a: "mem' 116 = 1 \<and> mem' 117 = 2 \<and> mem' 118 = 3" by simp
  from f n3 have "mem' 119 = sample_memory 119" "mem' 131 = sample_memory 131"
    by simp_all
  then have b: "mem' 119 = 0xaa \<and> mem' 131 = 0xaa" by (simp add: sample_memory_def)
  from run a b show ?thesis by blast
qed

text \<open>
  Claim C6. \<^verbatim>\<open>GetDelegationSecret\<close> has no error result: a call returns or panics. When
  the connection to the daemon fails, the call panics with that error after the one
  attempt, with no request sent; when the request fails (a timeout is such a failure), it
  panics with that error after the one request. In both cases the caller's memory is
  untouched. In every case nothing is printed, the calls to the daemon are the one
  connection and at most one request, memory changes only when the call returns, and then
  only inside the three output locations.
\<close>

theorem GetDelegationSecret_fatal:
  "(\<forall>e w1. Connect env sciondAddr (world s) = (Inl e, w1) \<longrightarrow>
       GetDelegationSecret env sciondAddr srcIA dstIA valTime pnb pna pkey s mem
         = (Panic (Fatal_error e),
            s\<lparr>world := w1, trace := trace s @ [EvConnect sciondAddr]\<rparr>, mem))
   \<and> (\<forall>sd w1 e w2.
         Connect env sciondAddr (world s) = (Inr sd, w1)
       \<and> DRKeyGetLvl2Key env sd (WithTimeout Background (10 * Second))
            \<lparr>KeyType = AS2AS, Protocol = ''piskes'', Epoch = zero_Epoch,
             SrcIA = IAInt_IA env srcIA, DstIA = IAInt_IA env dstIA,
             SrcHost = None, DstHost = None\<rparr>
            (UTC (time_Unix valTime 0)) w1 = (Inl e, w2) \<longrightarrow>
       GetDelegationSecret env sciondAddr srcIA dstIA valTime pnb pna pkey s mem
         = (Panic (Fatal_error e),
            s\<lparr>world := w2,
              trace := trace s @
                [EvConnect sciondAddr,
                 EvRequest sd (WithTimeout Background (10 * Second))
                   \<lparr>KeyType = AS2AS, Protocol = ''piskes'', Epoch = zero_Epoch,
                    SrcIA = IAInt_IA env srcIA, DstIA = IAInt_IA env dstIA,
                    SrcHost = None, DstHost = None\<rparr>
                   (UTC (time_Unix valTime 0))]\<rparr>, mem))
   \<and> (\<forall>r s' mem'.
         GetDelegationSecret env sciondAddr srcIA dstIA valTime pnb pna pkey s mem
           = (r, s', mem') \<longrightarrow>
           stdout s' = stdout s
         \<and> (\<exists>sd ctx meta t.
               trace s' = trace s @ [EvConnect sciondAddr]
             \<or> trace s' = trace s @ [EvConnect sciondAddr, EvRequest sd ctx meta t])
         \<and> (r \<noteq> Ok () \<longrightarrow> mem' = mem)
         \<and> (\<forall>a. (a < pnb \<or> pnb + 8 \<le> a) \<and> (a < pna \<or> pna + 8 \<le> a)
                \<and> (a < pkey \<or> pkey + 16 \<le> a) \<longrightarrow> mem' a = mem a))"
proof (intro conjI allI impI)
  fix e w1
  assume "Connect env sciondAddr (world s) = (Inl e, w1)"
  then show "GetDelegationSecret env sciondAddr srcIA dstIA valTime pnb pna pkey s mem
         = (Panic (Fatal_error e),
            s\<lparr>world := w1, trace := trace s @ [EvConnect sciondAddr]\<rparr>, mem)"
    by (simp add: GetDelegationSecret_def sciond_Connect_def check_def)
next
  fix sd w1 e w2
  assume "Connect env sciondAddr (world s) = (Inr sd, w1)
       \<and> DRKeyGetLvl2Key env sd (WithTimeout Background (10 * Second))
            \<lparr>KeyType = AS2AS, Protocol = ''piskes'', Epoch = zero_Epoch,
             SrcIA = IAInt_IA env srcIA, DstIA = IAInt_IA env dstIA,
             SrcHost = None, DstHost = None\<rparr>
            (UTC (time_Unix valTime 0)) w1 = (Inl e, w2)"
  then show "GetDelegationSecret env sciondAddr srcIA dstIA valTime pnb pna pkey s mem
         = (Panic (Fatal_error e),
            s\<lparr>world := w2,
              trace := trace s @
                [EvConnect sciondAddr,
                 EvRequest sd (WithTimeout Background (10 * Second))
                   \<lparr>KeyType = AS2AS, Protocol = ''piskes'', Epoch = zero_Epoch,
                    SrcIA = IAInt_IA env srcIA, DstIA = IAInt_IA env dstIA,
                    SrcHost = None, DstHost = None\<rparr>
                   (UTC (time_Unix valTime 0))]\<rparr>, mem)"
    by (simp add: GetDelegationSecret_def sciond_Connect_def sciond_DRKeyGetLvl2Key_def
        check_def Let_def)
next
  fix r s' mem'
  assume run: "GetDelegationSecret env sciondAddr srcIA dstIA valTime pnb pna pkey s mem
           = (r, s', mem')"
  then show "stdout s' = stdout s"
    by (auto simp: GetDelegationSecret_def sciond_Connect_def sciond_DRKeyGetLvl2Key_def
        check_def Let_def split: prod.splits sum.splits)
  from run show "\<exists>sd ctx meta t.
               trace s' = trace s @ [EvConnect sciondAddr]
             \<or> trace s' = trace s @ [EvConnect sciondAddr, EvRequest sd ctx meta t]"
    by (auto simp: GetDelegationSecret_def sciond_Connect_def sciond_DRKeyGetLvl2Key_def
        check_def Let_def split: prod.splits sum.splits)
  from run show "mem' = mem" if "r \<noteq> Ok ()"
    using that
    by (auto simp: GetDelegationSecret_def sciond_Connect_def sciond_DRKeyGetLvl2Key_def
        check_def Let_def split: prod.splits sum.splits)
  fix a
  assume a: "(a < pnb \<or> pnb + 8 \<le> a) \<and> (a < pna \<or> pna + 8 \<le> a)
                \<and> (a < pkey \<or> pkey + 16 \<le> a)"
  show "mem' a = mem a"
  proof (cases r)
    case (Panic p)
    with run show ?thesis
      by (auto simp: GetDelegationSecret_def sciond_Connect_def sciond_DRKeyGetLvl2Key_def
        check_def Let_def split: prod.splits sum.splits)
  next
    case (Ok u)
    with run have run': "GetDelegationSecret env sciondAddr srcIA dstIA valTime pnb pna pkey s mem
           = (Ok (), s', mem')" by simp
    from run' show ?thesis
    proof (rule GetDelegationSecret_Ok)
      fix lvl2Key
      assume m: "mem' = store_bytes
              (store_int64 (nativeEndian env)
                 (store_int64 (nativeEndian env) mem pnb (Unix (NotBefore (Epoch lvl2Key))))
                 pna (Unix (NotAfter (Epoch lvl2Key))))
              pkey (take 16 (Key lvl2Key))"
      have "length (take 16 (Key lvl2Key)) \<le> 16" by simp
      with a have "a < pkey \<or> pkey + length (take 16 (Key lvl2Key)) \<le> a" by linarith
      with a show ?thesis
        unfolding m by (simp add: store_bytes_outside store_int64_outside)
    qed
  qed
qed

theorem GetDelegationSecret_fatal_witness:
  "GetDelegationSecret sample_env ''10.0.0.1:30255'' 1 2 1600000000 100 108 116
       sample_state sample_memory
     = (Panic (Fatal_error (LibError ''connection refused'')),
        \<lparr>world = 0, trace = [EvConnect ''10.0.0.1:30255''], stdout = []\<rparr>, sample_memory)
   \<and> fst (GetDelegationSecret sample_env_timeout ''127.0.0.1:30255'' 1 2 1600000000 100 108 116
       sample_state sample_memory)
     = Panic (Fatal_error (LibError ''context deadline exceeded''))
   \<and> snd (snd (GetDelegationSecret sample_env_timeout ''127.0.0.1:30255'' 1 2 1600000000
       100 108 116 sample_state sample_memory)) = sample_memory"
proof -
  have c: "Connect sample_env ''10.0.0.1:30255'' (world sample_state)
             = (Inl (LibError ''connection refused''), 0)"
    by (simp add: sample_defs)
  have c': "Connect sample_env_timeout ''127.0.0.1:30255'' (world sample_state)
             = (Inr ''127.0.0.1:30255'', 0)"
    by (simp add: sample_env_timeout_def sample_defs)
  have r': "DRKeyGetLvl2Key sample_env_timeout ''127.0.0.1:30255''
            (WithTimeout Background (10 * Second))
            \<lparr>KeyType = AS2AS, Protocol = ''piskes'', Epoch = zero_Epoch,
             SrcIA = IAInt_IA sample_env_timeout 1, DstIA = IAInt_IA sample_env_timeout 2,
             SrcHost = None, DstHost = None\<rparr>
            (UTC (time_Unix 1600000000 0)) 0 = (Inl (LibError ''context deadline exceeded''), 0)"
    by (simp add: sample_env_timeout_def sample_defs)
  from GetDelegationSecret_fatal [of sample_env "''10.0.0.1:30255''" sample_state 1 2
      1600000000 100 108 116 sample_memory] c
  have 1: "GetDelegationSecret sample_env ''10.0.0.1:30255'' 1 2 1600000000 100 108 116
       sample_state sample_memory
     = (Panic (Fatal_error (LibError ''connection refused'')),
        \<lparr>world = 0, trace = [EvConnect ''10.0.0.1:30255''], stdout = []\<rparr>, sample_memory)"
    by (simp add: sample_state_def)
  from GetDelegationSecret_fatal [of sample_env_timeout "''127.0.0.1:30255''" sample_state 1 2
      1600000000 100 108 116 sample_memory] c' r'
  have 2: "fst (GetDelegationSecret sample_env_timeout ''127.0.0.1:30255'' 1 2 1600000000 100 108 116
       sample_state sample_memory)
     = Panic (Fatal_error (LibError ''context deadline exceeded''))
   \<and> snd (snd (GetDelegationSecret sample_env_timeout ''127.0.0.1:30255'' 1 2 1600000000
       100 108 116 sample_state sample_memory)) = sample_memory"
    by simp
  from 1 2 show ?thesis by blast
qed

section \<open>Properties of \<^verbatim>\<open>dsForServer\<close>\<close>

lemmas dsForServer_defs = sciond_DRKeyGetLvl2Key_def Now_def check_def fmt_Printf_def Let_def

lemma dsForServer_after_first:
  assumes "time_Now env (world s) = (t0, w0)"
    and "DRKeyGetLvl2Key env sd (WithTimeout Background (10 * Second)) (dsMeta_of meta)
           (UTC t0) w0 = (Inr k1, w1)"
  shows "fst (dsForServer env (Server sd) meta s) =
     (case DRKeyGetLvl2Key env sd (WithTimeout Background (10 * Second)) (dsMeta_of meta)
             (Add (NotAfter (Epoch k1)) (1 * Second)) w1 of
        (Inl e, w2) \<Rightarrow> Panic (Fatal_error e)
      | (Inr k2, w2) \<Rightarrow>
          (case DRKeyGetLvl2Key env sd (WithTimeout Background (10 * Second)) (dsMeta_of meta)
                  (Add (NotBefore (Epoch k1)) (- 1 * Second)) w2 of
             (Inl e, w3) \<Rightarrow> Panic (Fatal_error e)
           | (Inr k3, w3) \<Rightarrow> Ok (ds_of k1)))"
  using assms by (simp add: dsForServer_defs split: prod.splits sum.splits)

lemma map_image_1: "\<exists>ts. [f a] = map f ts \<and> ts \<noteq> [] \<and> length ts \<le> 3"
  by (rule exI [of _ "[a]"]) simp

lemma map_image_2: "\<exists>ts. [f a, f b] = map f ts \<and> ts \<noteq> [] \<and> length ts \<le> 3"
  by (rule exI [of _ "[a, b]"]) simp

lemma map_image_3: "\<exists>ts. [f a, f b, f c] = map f ts \<and> ts \<noteq> [] \<and> length ts \<le> 3"
  by (rule exI [of _ "[a, b, c]"]) simp

lemma dsForServer_trace:
  "\<exists>ts. trace (snd (dsForServer env (Server sd) meta s)) =
          trace s @ map (EvRequest sd (WithTimeout Background (10 * Second)) (dsMeta_of meta)) ts
        \<and> ts \<noteq> [] \<and> length ts \<le> 3"
  by (simp add: dsForServer_defs map_image_1 map_image_2 map_image_3
      split: prod.splits sum.splits)

lemma dsForServer_cong:
  "dsMeta_of m1 = dsMeta_of m2 \<Longrightarrow> dsForServer env srv m1 s = dsForServer env srv m2 s"
  by (cases srv) (simp add: Let_def)

text \<open>
  Claim C5. Let the first request of \<^verbatim>\<open>dsForServer\<close>, the one for the time \<open>now\<close>, be
  answered with the key \<open>k1\<close>. Then every delegation secret \<^verbatim>\<open>dsForServer\<close> returns has
  the protocol, epoch, source IA, destination IA and key of \<open>k1\<close>; whatever keys the daemon
  answers to the two further requests, at one second after the end and one second before
  the start of the epoch of \<open>k1\<close>, this same secret is returned; and the call panics only
  when one of these two requests fails.
\<close>

theorem dsForServer_secret_from_first_response:
  assumes now: "time_Now env (world s) = (t0, w0)"
    and first: "DRKeyGetLvl2Key env sd (WithTimeout Background (10 * Second))
           \<lparr>KeyType = AS2AS, Protocol = Protocol meta, Epoch = zero_Epoch,
            SrcIA = SrcIA meta, DstIA = DstIA meta, SrcHost = None, DstHost = None\<rparr>
           (UTC t0) w0 = (Inr k1, w1)"
  shows "(\<forall>ds s'. dsForServer env (Server sd) meta s = (Ok ds, s') \<longrightarrow>
            DS_Protocol ds = Protocol k1 \<and> DS_Epoch ds = Epoch k1 \<and> DS_SrcIA ds = SrcIA k1
          \<and> DS_DstIA ds = DstIA k1 \<and> DS_Key ds = Key k1)
    \<and> (\<forall>k2 w2 k3 w3.
          DRKeyGetLvl2Key env sd (WithTimeout Background (10 * Second))
            \<lparr>KeyType = AS2AS, Protocol = Protocol meta, Epoch = zero_Epoch,
             SrcIA = SrcIA meta, DstIA = DstIA meta, SrcHost = None, DstHost = None\<rparr>
            (Add (NotAfter (Epoch k1)) (1 * Second)) w1 = (Inr k2, w2)
        \<and> DRKeyGetLvl2Key env sd (WithTimeout Background (10 * Second))
            \<lparr>KeyType = AS2AS, Protocol = Protocol meta, Epoch = zero_Epoch,
             SrcIA = SrcIA meta, DstIA = DstIA meta, SrcHost = None, DstHost = None\<rparr>
            (Add (NotBefore (Epoch k1)) (- 1 * Second)) w2 = (Inr k3, w3) \<longrightarrow>
          fst (dsForServer env (Server sd) meta s) =
            Ok \<lparr>DS_Protocol = Protocol k1, DS_Epoch = Epoch k1, DS_SrcIA = SrcIA k1,
                DS_DstIA = DstIA k1, DS_Key = Key k1\<rparr>)
    \<and> (\<forall>p. fst (dsForServer env (Server sd) meta s) = Panic p \<longrightarrow>
          (\<exists>e w2. DRKeyGetLvl2Key env sd (WithTimeout Background (10 * Second))
            \<lparr>KeyType = AS2AS, Protocol = Protocol meta, Epoch = zero_Epoch,
             SrcIA = SrcIA meta, DstIA = DstIA meta, SrcHost = None, DstHost = None\<rparr>
            (Add (NotAfter (Epoch k1)) (1 * Second)) w1 = (Inl e, w2))
        \<or> (\<exists>k2 w2 e w3. DRKeyGetLvl2Key env sd (WithTimeout Background (10 * Second))
            \<lparr>KeyType = AS2AS, Protocol = Protocol meta, Epoch = zero_Epoch,
             SrcIA = SrcIA meta, DstIA = DstIA meta, SrcHost = None, DstHost = None\<rparr>
            (Add (NotAfter (Epoch k1)) (1 * Second)) w1 = (Inr k2, w2)
          \<and> DRKeyGetLvl2Key env sd (WithTimeout Background (10 * Second))
            \<lparr>KeyType = AS2AS, Protocol = Protocol meta, Epoch = zero_Epoch,
             SrcIA = SrcIA meta, DstIA = DstIA meta, SrcHost = None, DstHost = None\<rparr>
            (Add (NotBefore (Epoch k1)) (- 1 * Second)) w2 = (Inl e, w3)))"
proof -
  from first have first': "DRKeyGetLvl2Key env sd (WithTimeout Background (10 * Second))
      (dsMeta_of meta) (UTC t0) w0 = (Inr k1, w1)"
    by (simp add: dsMeta_of_def)
  note eq = dsForServer_after_first [OF now first', unfolded dsMeta_of_def ds_of_def]
  have 1: "DS_Protocol ds = Protocol k1 \<and> DS_Epoch ds = Epoch k1 \<and> DS_SrcIA ds = SrcIA k1
          \<and> DS_DstIA ds = DstIA k1 \<and> DS_Key ds = Key k1"
    if "dsForServer env (Server sd) meta s = (Ok ds, s')" for ds s'
  proof -
    from that have "fst (dsForServer env (Server sd) meta s) = Ok ds" by simp
    with eq show ?thesis
      by (auto split: prod.splits sum.splits)
  qed
  have 2: "fst (dsForServer env (Server sd) meta s) =
            Ok \<lparr>DS_Protocol = Protocol k1, DS_Epoch = Epoch k1, DS_SrcIA = SrcIA k1,
                DS_DstIA = DstIA k1, DS_Key = Key k1\<rparr>"
    if "DRKeyGetLvl2Key env sd (WithTimeout Background (10 * Second))
            \<lparr>KeyType = AS2AS, Protocol = Protocol meta, Epoch = zero_Epoch,
             SrcIA = SrcIA meta, DstIA = DstIA meta, SrcHost = None, DstHost = None\<rparr>
            (Add (NotAfter (Epoch k1)) (1 * Second)) w1 = (Inr k2, w2)
        \<and> DRKeyGetLvl2Key env sd (WithTimeout Background (10 * Second))
            \<lparr>KeyType = AS2AS, Protocol = Protocol meta, Epoch = zero_Epoch,
             SrcIA = SrcIA meta, DstIA = DstIA meta, SrcHost = None, DstHost = None\<rparr>
            (Add (NotBefore (Epoch k1)) (- 1 * Second)) w2 = (Inr k3, w3)" for k2 w2 k3 w3
    using eq that by simp
  have 3: "(\<exists>e w2. DRKeyGetLvl2Key env sd (WithTimeout Background (10 * Second))
            \<lparr>KeyType = AS2AS, Protocol = Protocol meta, Epoch = zero_Epoch,
             SrcIA = SrcIA meta, DstIA = DstIA meta, SrcHost = None, DstHost = None\<rparr>
            (Add (NotAfter (Epoch k1)) (1 * Second)) w1 = (Inl e, w2))
        \<or> (\<exists>k2 w2 e w3. DRKeyGetLvl2Key env sd (WithTimeout Background (10 * Second))
            \<lparr>KeyType = AS2AS, Protocol = Protocol meta, Epoch = zero_Epoch,
             SrcIA = SrcIA meta, DstIA = DstIA meta, SrcHost = None, DstHost = None\<rparr>
            (Add (NotAfter (Epoch k1)) (1 * Second)) w1 = (Inr k2, w2)
          \<and> DRKeyGetLvl2Key env sd (WithTimeout Background (10 * Second))
            \<lparr>KeyType = AS2AS, Protocol = Protocol meta, Epoch = zero_Epoch,
             SrcIA = SrcIA meta, DstIA = DstIA meta, SrcHost = None, DstHost = None\<rparr>
            (Add (NotBefore (Epoch k1)) (- 1 * Second)) w2 = (Inl e, w3))"
    if "fst (dsForServer env (Server sd) meta s) = Panic p" for p
    using eq that by (auto split: prod.splits sum.splits)
  from 1 2 3 show ?thesis by blast
qed

theorem dsForServer_secret_from_first_response_witness:
  "fst (dsForServer sample_env (Server ''127.0.0.1:30255'')
          \<lparr>KeyType = Host2Host, Protocol = ''piskes'', Epoch = zero_Epoch,
           SrcIA = IA 1 2, DstIA = IA 1 3,
           SrcHost = Some (HostIPv4 [127, 0, 0, 1]), DstHost = Some (HostSVC 2)\<rparr>
          sample_state)
     = Ok \<lparr>DS_Protocol = ''piskes'',
           DS_Epoch = \<lparr>NotBefore = \<lparr>unixSec = 1599955200, nsec = 0, loc = UTC_loc\<rparr>,
                       NotAfter = \<lparr>unixSec = 1600041600, nsec = 0, loc = UTC_loc\<rparr>\<rparr>,
           DS_SrcIA = IA 1 2, DS_DstIA = IA 1 3, DS_Key = replicate 16 86\<rparr>"
proof -
  have now: "time_Now sample_env (world sample_state)
               = (\<lparr>unixSec = 1600000000, nsec = 0, loc = Local\<rparr>, 1)"
    by (simp add: sample_defs)
  have first: "DRKeyGetLvl2Key sample_env ''127.0.0.1:30255''
       (WithTimeout Background (10 * Second))
       \<lparr>KeyType = AS2AS,
        Protocol = Protocol \<lparr>KeyType = Host2Host, Protocol = ''piskes'', Epoch = zero_Epoch,
           SrcIA = IA 1 2, DstIA = IA 1 3,
           SrcHost = Some (HostIPv4 [127, 0, 0, 1]), DstHost = Some (HostSVC 2)\<rparr>,
        Epoch = zero_Epoch,
        SrcIA = SrcIA \<lparr>KeyType = Host2Host, Protocol = ''piskes'', Epoch = zero_Epoch,
           SrcIA = IA 1 2, DstIA = IA 1 3,
           SrcHost = Some (HostIPv4 [127, 0, 0, 1]), DstHost = Some (HostSVC 2)\<rparr>,
        DstIA = DstIA \<lparr>KeyType = Host2Host, Protocol = ''piskes'', Epoch = zero_Epoch,
           SrcIA = IA 1 2, DstIA = IA 1 3,
           SrcHost = Some (HostIPv4 [127, 0, 0, 1]), DstHost = Some (HostSVC 2)\<rparr>,
        SrcHost = None, DstHost = None\<rparr>
       (UTC \<lparr>unixSec = 1600000000, nsec = 0, loc = Local\<rparr>) 1
     = (Inr \<lparr>KeyType = AS2AS, Protocol = ''piskes'',
             Epoch = \<lparr>NotBefore = \<lparr>unixSec = 1599955200, nsec = 0, loc = UTC_loc\<rparr>,
                      NotAfter = \<lparr>unixSec = 1600041600, nsec = 0, loc = UTC_loc\<rparr>\<rparr>,
             SrcIA = IA 1 2, DstIA = IA 1 3, SrcHost = None, DstHost = None,
             Key = replicate 16 86\<rparr>, 1)"
    by (simp add: sample_defs UTC_def)
  from dsForServer_secret_from_first_response [OF now first]
  show ?thesis
    by (simp add: sample_defs Add_def Second_def)
qed

text \<open>
  Claim C9. Two metadata values with the same protocol, source IA and destination IA make
  \<^verbatim>\<open>dsForServer\<close> behave the same from the same state: the same requests, the same
  printed lines, the same result. Each of its one to three requests carries the key type
  AS2AS, the protocol and the two IAs of the metadata, and no host.
\<close>

theorem dsForServer_request_independent_of_hosts:
  assumes "Protocol m1 = Protocol m2" and "SrcIA m1 = SrcIA m2" and "DstIA m1 = DstIA m2"
  shows "dsForServer env (Server sd) m1 s = dsForServer env (Server sd) m2 s
    \<and> (\<exists>ts. trace (snd (dsForServer env (Server sd) m1 s)) =
          trace s @ map (EvRequest sd (WithTimeout Background (10 * Second))
                          \<lparr>KeyType = AS2AS, Protocol = Protocol m1, Epoch = zero_Epoch,
                           SrcIA = SrcIA m1, DstIA = DstIA m1,
                           SrcHost = None, DstHost = None\<rparr>) ts
        \<and> ts \<noteq> [] \<and> length ts \<le> 3)"
proof
  from assms have "dsMeta_of m1 = dsMeta_of m2"
    by (simp add: dsMeta_of_def)
  then show "dsForServer env (Server sd) m1 s = dsForServer env (Server sd) m2 s"
    by (rule dsForServer_cong)
  from dsForServer_trace [of env sd m1 s]
  show "\<exists>ts. trace (snd (dsForServer env (Server sd) m1 s)) =
          trace s @ map (EvRequest sd (WithTimeout Background (10 * Second))
                          \<lparr>KeyType = AS2AS, Protocol = Protocol m1, Epoch = zero_Epoch,
                           SrcIA = SrcIA m1, DstIA = DstIA m1,
                           SrcHost = None, DstHost = None\<rparr>) ts
        \<and> ts \<noteq> [] \<and> length ts \<le> 3"
    by (simp add: dsMeta_of_def)
qed

theorem dsForServer_request_independent_of_hosts_witness:
  "dsForServer sample_env (Server ''127.0.0.1:30255'')
      \<lparr>KeyType = Host2Host, Protocol = ''piskes'', Epoch = zero_Epoch,
       SrcIA = IA 1 2, DstIA = IA 1 3,
       SrcHost = Some (HostIPv4 [127, 0, 0, 1]), DstHost = Some (HostSVC 2)\<rparr> sample_state
   = dsForServer sample_env (Server ''127.0.0.1:30255'')
      \<lparr>KeyType = AS2Host, Protocol = ''piskes'', Epoch = zero_Epoch,
       SrcIA = IA 1 2, DstIA = IA 1 3,
       SrcHost = None, DstHost = Some (HostIPv4 [10, 0, 0, 1])\<rparr> sample_state"
  using dsForServer_request_independent_of_hosts
    [of "\<lparr>KeyType = Host2Host, Protocol = ''piskes'', Epoch = zero_Epoch,
       SrcIA = IA 1 2, DstIA = IA 1 3,
       SrcHost = Some (HostIPv4 [127, 0, 0, 1]), DstHost = Some (HostSVC 2)\<rparr>"
     "\<lparr>KeyType = AS2Host, Protocol = ''piskes'', Epoch = zero_Epoch,
       SrcIA = IA 1 2, DstIA = IA 1 3,
       SrcHost = None, DstHost = Some (HostIPv4 [10, 0, 0, 1])\<rparr>"
     sample_env "''127.0.0.1:30255''" sample_state]
  by simp

section \<open>Properties of \<^verbatim>\<open>HostKeyFromDS\<close>\<close>

text \<open>
  Claim C4, as the code has it. \<^verbatim>\<open>HostKeyFromDS\<close> looks up the fixed name \<^verbatim>\<open>piskes\<close> in
  the registry, whatever the protocol of the metadata is. If the entry is a delegated
  derivation, the result is what this derivation makes of the metadata and the secret, and
  a panic with its error if it rejects them; if there is no such entry, or one that is no
  delegated derivation, the type assertion panics. No other entry of the registry and
  nothing else of the environment matters.
\<close>

theorem HostKeyFromDS_fixed_protocol:
  "(\<forall>f. KnownDerivations env ''piskes'' = Some (DelegatedDerivation f) \<longrightarrow>
      HostKeyFromDS env srv meta ds =
        (case f meta ds of Inl e \<Rightarrow> Panic (Fatal_error e) | Inr k \<Rightarrow> Ok k))
   \<and> ((\<forall>f. KnownDerivations env ''piskes'' \<noteq> Some (DelegatedDerivation f)) \<longrightarrow>
        HostKeyFromDS env srv meta ds = Panic Interface_conversion)
   \<and> (\<forall>env' srv'. KnownDerivations env' ''piskes'' = KnownDerivations env ''piskes'' \<longrightarrow>
        HostKeyFromDS env' srv' meta ds = HostKeyFromDS env srv meta ds)"
  by (auto simp: HostKeyFromDS_def check_def split: option.splits Derivation.splits)

theorem HostKeyFromDS_fixed_protocol_witness:
  "HostKeyFromDS sample_env (Server ''127.0.0.1:30255'')
        \<lparr>KeyType = Host2Host, Protocol = ''other'', Epoch = zero_Epoch,
         SrcIA = IA 1 2, DstIA = IA 1 3, SrcHost = None, DstHost = None\<rparr>
        \<lparr>DS_Protocol = ''other'', DS_Epoch = zero_Epoch, DS_SrcIA = IA 1 2,
         DS_DstIA = IA 1 3, DS_Key = [1, 2, 3]\<rparr>
     = Ok \<lparr>KeyType = Host2Host, Protocol = ''other'', Epoch = zero_Epoch,
           SrcIA = IA 1 2, DstIA = IA 1 3, SrcHost = None, DstHost = None,
           Key = [2, 3, 4]\<rparr>
   \<and> HostKeyFromDS sample_env (Server ''127.0.0.1:30255'')
        \<lparr>KeyType = AS2AS, Protocol = ''piskes'', Epoch = zero_Epoch,
         SrcIA = IA 1 2, DstIA = IA 1 3, SrcHost = None, DstHost = None\<rparr>
        \<lparr>DS_Protocol = ''piskes'', DS_Epoch = zero_Epoch, DS_SrcIA = IA 1 2,
         DS_DstIA = IA 1 3, DS_Key = [1, 2, 3]\<rparr>
     = Panic (Fatal_error (LibError ''Unknown DRKey type''))
   \<and> HostKeyFromDS (sample_env\<lparr>KnownDerivations := (\<lambda>name. None)\<rparr>)
        (Server ''127.0.0.1:30255'')
        \<lparr>KeyType = Host2Host, Protocol = ''piskes'', Epoch = zero_Epoch,
         SrcIA = IA 1 2, DstIA = IA 1 3, SrcHost = None, DstHost = None\<rparr>
        \<lparr>DS_Protocol = ''piskes'', DS_Epoch = zero_Epoch, DS_SrcIA = IA 1 2,
         DS_DstIA = IA 1 3, DS_Key = [1, 2, 3]\<rparr>
     = Panic Interface_conversion"
proof -
  have reg: "KnownDerivations sample_env ''piskes'' = Some (DelegatedDerivation sample_piskes)"
    by (simp add: sample_env_def sample_KnownDerivations_def)
  have unreg: "\<forall>f::Lvl2Meta \<Rightarrow> DelegationSecret \<Rightarrow> error + Lvl2Key. KnownDerivations (sample_env\<lparr>KnownDerivations := (\<lambda>name. None)\<rparr>) ''piskes''
                 \<noteq> Some (DelegatedDerivation f)"
    by simp
  have 1: "HostKeyFromDS sample_env (Server ''127.0.0.1:30255'')
        \<lparr>KeyType = Host2Host, Protocol = ''other'', Epoch = zero_Epoch,
         SrcIA = IA 1 2, DstIA = IA 1 3, SrcHost = None, DstHost = None\<rparr>
        \<lparr>DS_Protocol = ''other'', DS_Epoch = zero_Epoch, DS_SrcIA = IA 1 2,
         DS_DstIA = IA 1 3, DS_Key = [1, 2, 3]\<rparr>
     = Ok \<lparr>KeyType = Host2Host, Protocol = ''other'', Epoch = zero_Epoch,
           SrcIA = IA 1 2, DstIA = IA 1 3, SrcHost = None, DstHost = None,
           Key = [2, 3, 4]\<rparr>"
    using HostKeyFromDS_fixed_protocol [THEN conjunct1, rule_format, OF reg]
    by (simp add: sample_piskes_def)
  have 2: "HostKeyFromDS sample_env (Server ''127.0.0.1:30255'')
        \<lparr>KeyType = AS2AS, Protocol = ''piskes'', Epoch = zero_Epoch,
         SrcIA = IA 1 2, DstIA = IA 1 3, SrcHost = None, DstHost = None\<rparr>
        \<lparr>DS_Protocol = ''piskes'', DS_Epoch = zero_Epoch, DS_SrcIA = IA 1 2,
         DS_DstIA = IA 1 3, DS_Key = [1, 2, 3]\<rparr>
     = Panic (Fatal_error (LibError ''Unknown DRKey type''))"
    using HostKeyFromDS_fixed_protocol [THEN conjunct1, rule_format, OF reg]
    by (simp add: sample_piskes_def)
  have 3: "HostKeyFromDS (sample_env\<lparr>KnownDerivations := (\<lambda>name. None)\<rparr>)
        (Server ''127.0.0.1:30255'')
        \<lparr>KeyType = Host2Host, Protocol = ''piskes'', Epoch = zero_Epoch,
         SrcIA = IA 1 2, DstIA = IA 1 3, SrcHost = None, DstHost = None\<rparr>
        \<lparr>DS_Protocol = ''piskes'', DS_Epoch = zero_Epoch, DS_SrcIA = IA 1 2,
         DS_DstIA = IA 1 3, DS_Key = [1, 2, 3]\<rparr>
     = Panic Interface_conversion"
    using HostKeyFromDS_fixed_protocol [THEN conjunct2, THEN conjunct1, rule_format, OF unreg [rule_format]]
    by simp
  from 1 2 3 show ?thesis by blast
qed

text \<open>
  The lookup is not by the protocol of the metadata. In the sample registry the name
  \<^verbatim>\<open>unknown\<close> is not registered, and metadata of this protocol still get a key; the name
  \<^verbatim>\<open>other\<close> is registered with a derivation that reverses the secret, and metadata of
  this protocol get the key of \<^verbatim>\<open>piskes\<close> instead.
\<close>

theorem HostKeyFromDS_lookup_by_meta_protocol_counterexample:
  "KnownDerivations sample_env ''unknown'' = None
   \<and> HostKeyFromDS sample_env (Server ''127.0.0.1:30255'')
        \<lparr>KeyType = Host2Host, Protocol = ''unknown'', Epoch = zero_Epoch,
         SrcIA = IA 1 2, DstIA = IA 1 3, SrcHost = None, DstHost = None\<rparr>
        \<lparr>DS_Protocol = ''piskes'', DS_Epoch = zero_Epoch, DS_SrcIA = IA 1 2,
         DS_DstIA = IA 1 3, DS_Key = [1, 2, 3]\<rparr>
     = Ok \<lparr>KeyType = Host2Host, Protocol = ''unknown'', Epoch = zero_Epoch,
           SrcIA = IA 1 2, DstIA = IA 1 3, SrcHost = None, DstHost = None,
           Key = [2, 3, 4]\<rparr>
   \<and> KnownDerivations sample_env ''other'' = Some (DelegatedDerivation sample_other)
   \<and> check (sample_other
        \<lparr>KeyType = Host2Host, Protocol = ''other'', Epoch = zero_Epoch,
         SrcIA = IA 1 2, DstIA = IA 1 3, SrcHost = None, DstHost = None\<rparr>
        \<lparr>DS_Protocol = ''other'', DS_Epoch = zero_Epoch, DS_SrcIA = IA 1 2,
         DS_DstIA = IA 1 3, DS_Key = [1, 2, 3]\<rparr>)
     = Ok \<lparr>KeyType = Host2Host, Protocol = ''other'', Epoch = zero_Epoch,
           SrcIA = IA 1 2, DstIA = IA 1 3, SrcHost = None, DstHost = None,
           Key = [3, 2, 1]\<rparr>
   \<and> HostKeyFromDS sample_env (Server ''127.0.0.1:30255'')
        \<lparr>KeyType = Host2Host, Protocol = ''other'', Epoch = zero_Epoch,
         SrcIA = IA 1 2, DstIA = IA 1 3, SrcHost = None, DstHost = None\<rparr>
        \<lparr>DS_Protocol = ''other'', DS_Epoch = zero_Epoch, DS_SrcIA = IA 1 2,
         DS_DstIA = IA 1 3, DS_Key = [1, 2, 3]\<rparr>
     = Ok \<lparr>KeyType = Host2Host, Protocol = ''other'', Epoch = zero_Epoch,
           SrcIA = IA 1 2, DstIA = IA 1 3, SrcHost = None, DstHost = None,
           Key = [2, 3, 4]\<rparr>"
  by (simp add: HostKeyFromDS_def check_def sample_env_def sample_KnownDerivations_def
      sample_piskes_def sample_other_def)

section \<open>Properties of the endpoint address parser\<close>

text \<open>The scan of \<open>addrRegexp_FindStringSubmatch\<close> finds exactly the texts of the expression.\<close>

lemma match_imp_find:
  assumes "addrRegexp_matches address ia l3"
  shows "addrRegexp_FindStringSubmatch address = Some [address, ia, l3]"
proof -
  from assms obtain isd asn where
    a: "address = (isd @ ''-'' @ asn) @ '',['' @ l3 @ '']''" and ia: "ia = isd @ ''-'' @ asn"
    and i1: "isd \<noteq> []" and i2: "list_all is_digit isd"
    and a1: "asn \<noteq> []" and a2: "list_all is_ia_char asn"
    and l1: "l3 \<noteq> []" and l2: "list_all not_rbracket l3"
    by (auto simp: addrRegexp_matches_def ia_shape_def l3_shape_def)
  have nd: "\<not> is_digit CHR ''-''" by (simp add: is_digit_def)
  have ni: "\<not> is_ia_char CHR '',''" by (simp add: is_ia_char_def)
  have nr: "\<not> not_rbracket CHR '']''" by (simp add: not_rbracket_def)
  have tw1: "takeWhile is_digit address = isd"
    using i2 nd unfolding a by (simp add: list_all_iff)
  have dw1: "dropWhile is_digit address = ''-'' @ asn @ '',['' @ l3 @ '']''"
    using i2 nd unfolding a by (simp add: list_all_iff)
  have tw2: "takeWhile is_ia_char (asn @ '',['' @ l3 @ '']'') = asn"
    using a2 ni by (simp add: list_all_iff)
  have dw2: "dropWhile is_ia_char (asn @ '',['' @ l3 @ '']'') = '',['' @ l3 @ '']''"
    using a2 ni by (simp add: list_all_iff)
  have tw3: "takeWhile not_rbracket (l3 @ '']'') = l3"
    using l2 nr by (simp add: list_all_iff)
  have dw3: "dropWhile not_rbracket (l3 @ '']'') = '']''"
    using l2 nr by (simp add: list_all_iff)
  show ?thesis
    unfolding addrRegexp_FindStringSubmatch_def
    using tw1 dw1 tw2 dw2 tw3 dw3 i1 a1 l1 ia by (simp add: Let_def)
qed

lemma list_all_takeWhile: "list_all P (takeWhile P xs)"
  by (induction xs) simp_all

lemma find_imp_match:
  assumes "addrRegexp_FindStringSubmatch address = Some parts"
  shows "\<exists>ia l3. parts = [address, ia, l3] \<and> addrRegexp_matches address ia l3"
proof -
  define isd where "isd = takeWhile is_digit address"
  define r1 where "r1 = dropWhile is_digit address"
  have s1: "address = isd @ r1" by (simp add: isd_def r1_def)
  from assms have i1: "isd \<noteq> []"
    by (auto simp: addrRegexp_FindStringSubmatch_def Let_def isd_def split: if_splits)
  from assms i1 obtain r2 where r1: "r1 = CHR ''-'' # r2"
    by (auto simp: addrRegexp_FindStringSubmatch_def Let_def isd_def r1_def
        split: if_splits list.splits)
  define asn where "asn = takeWhile is_ia_char r2"
  define r3 where "r3 = dropWhile is_ia_char r2"
  have s2: "r2 = asn @ r3" by (simp add: asn_def r3_def)
  from assms i1 r1 have a1: "asn \<noteq> []"
    by (auto simp: addrRegexp_FindStringSubmatch_def Let_def isd_def r1_def asn_def
        split: if_splits list.splits)
  from assms i1 r1 a1 obtain r4 where r3: "r3 = CHR '','' # CHR ''['' # r4"
    by (auto simp: addrRegexp_FindStringSubmatch_def Let_def isd_def r1_def asn_def r3_def
        split: if_splits list.splits)
  define l3 where "l3 = takeWhile not_rbracket r4"
  have s3: "r4 = l3 @ dropWhile not_rbracket r4" by (simp add: l3_def)
  from assms i1 r1 a1 r3 have fin: "l3 \<noteq> [] \<and> dropWhile not_rbracket r4 = '']''
      \<and> parts = [address, isd @ ''-'' @ asn, l3]"
    by (auto simp: addrRegexp_FindStringSubmatch_def Let_def isd_def r1_def asn_def r3_def
        l3_def split: if_splits list.splits)
  have "address = (isd @ ''-'' @ asn) @ '',['' @ l3 @ '']''"
    using s1 r1 s2 r3 s3 fin by simp
  moreover have "ia_shape (isd @ ''-'' @ asn)"
    unfolding ia_shape_def using i1 a1
    by (intro exI [of _ isd] exI [of _ asn]) (simp add: isd_def asn_def list_all_takeWhile)
  moreover have "l3_shape l3"
    using fin by (simp add: l3_shape_def l3_def list_all_takeWhile)
  ultimately have "addrRegexp_matches address (isd @ ''-'' @ asn) l3"
    by (simp add: addrRegexp_matches_def)
  with fin show ?thesis by blast
qed

lemma find_None_iff:
  "addrRegexp_FindStringSubmatch address = None \<longleftrightarrow> (\<forall>ia l3. \<not> addrRegexp_matches address ia l3)"
proof
  assume n: "addrRegexp_FindStringSubmatch address = None"
  show "\<forall>ia l3. \<not> addrRegexp_matches address ia l3"
  proof (intro allI notI)
    fix ia l3 assume "addrRegexp_matches address ia l3"
    from match_imp_find [OF this] n show False by simp
  qed
next
  assume a: "\<forall>ia l3. \<not> addrRegexp_matches address ia l3"
  show "addrRegexp_FindStringSubmatch address = None"
  proof (cases "addrRegexp_FindStringSubmatch address")
    case None then show ?thesis .
  next
    case (Some parts)
    from find_imp_match [OF this] a show ?thesis by blast
  qed
qed

lemma addrFromString_match:
  assumes "addrRegexp_matches address ia l3"
  shows "addrFromString lib address =
     (case IAFromString lib ia of
        Inl err \<Rightarrow> (zero_SCIONAddress, Some (Errorf ''invalid IA string: %v'' ia))
      | Inr v \<Rightarrow>
          (if HostSVCFromString lib l3 \<noteq> SvcNone lib
           then (\<lparr>IA_of = v, Host = Some (HostSVC (HostSVCFromString lib l3))\<rparr>, None)
           else (case HostFromIPStr lib l3 of
                   None \<Rightarrow> (zero_SCIONAddress,
                            Some (Errorf ''invalid IP address string: %v'' l3))
                 | Some h \<Rightarrow> (\<lparr>IA_of = v, Host = Some h\<rparr>, None))))"
  using match_imp_find [OF assms]
  by (simp add: addrFromString_def addrRegexpIaIndex_def addrRegexpL3Index_def Let_def
      split: sum.splits option.splits)

lemma addrFromString_nomatch:
  assumes "\<forall>ia l3. \<not> addrRegexp_matches address ia l3"
  shows "addrFromString lib address =
           (zero_SCIONAddress, Some (Errorf ''no valid SCION address: %q'' address))"
  using assms find_None_iff [of address] by (simp add: addrFromString_def)

lemma ia_shape_111: "ia_shape ''1-ff00:0:111''"
  unfolding ia_shape_def
  by (intro exI [of _ "''1''"] exI [of _ "''ff00:0:111''"])
     (simp add: is_digit_def is_ia_char_def)

lemma ia_shape_112: "ia_shape ''1-ff00:0:112''"
  unfolding ia_shape_def
  by (intro exI [of _ "''1''"] exI [of _ "''ff00:0:112''"])
     (simp add: is_digit_def is_ia_char_def)

lemma ia_shape_1_1: "ia_shape ''1-1''"
  unfolding ia_shape_def
  by (intro exI [of _ "''1''"] exI [of _ "''1''"])
     (simp add: is_digit_def is_ia_char_def)

text \<open>
  Claim C2. Let a text have the form \<open>ia @ '',['' @ host @ '']''\<close> of the parser's
  expression: \<open>ia\<close> is digits, a dash and characters of an AS number, \<open>host\<close> is not empty
  and has no closing bracket. If \<open>ia\<close> is a valid IA string and \<open>host\<close> names a service or is
  a valid IP literal, then \<^verbatim>\<open>addrFromString\<close> succeeds, and the address it returns has the
  IA that \<^verbatim>\<open>addr.IAFromString\<close> gives for \<open>ia\<close> and the host that
  \<^verbatim>\<open>addr.HostSVCFromString\<close> or else \<^verbatim>\<open>addr.HostFromIPStr\<close> gives for \<open>host\<close>, unchanged.
\<close>

theorem addrFromString_well_formed:
  assumes "ia_shape ia" and "l3_shape host" and "IAFromString lib ia = Inr v"
    and "HostSVCFromString lib host \<noteq> SvcNone lib \<or> HostFromIPStr lib host \<noteq> None"
  shows "addrFromString lib (ia @ '',['' @ host @ '']'') =
           (\<lparr>IA_of = v,
             Host = (if HostSVCFromString lib host \<noteq> SvcNone lib
                     then Some (HostSVC (HostSVCFromString lib host))
                     else HostFromIPStr lib host)\<rparr>, None)"
proof -
  from assms(1,2) have "addrRegexp_matches (ia @ '',['' @ host @ '']'') ia host"
    by (simp add: addrRegexp_matches_def)
  from addrFromString_match [OF this, of lib] assms(3,4) show ?thesis
    by (auto split: option.splits)
qed

theorem addrFromString_well_formed_witness:
  "addrFromString sample_env ''1-ff00:0:111,[127.0.0.1]''
     = (\<lparr>IA_of = IA 1 0xff0000000111, Host = Some (HostIPv4 [127, 0, 0, 1])\<rparr>, None)
   \<and> addrFromString sample_env ''1-ff00:0:112,[CS]''
     = (\<lparr>IA_of = IA 1 0xff0000000112, Host = Some (HostSVC 2)\<rparr>, None)"
proof -
  have 1: "addrFromString sample_env (''1-ff00:0:111'' @ '',['' @ ''127.0.0.1'' @ '']'')
     = (\<lparr>IA_of = IA 1 0xff0000000111, Host = Some (HostIPv4 [127, 0, 0, 1])\<rparr>, None)"
    using addrFromString_well_formed [of "''1-ff00:0:111''" "''127.0.0.1''" sample_env
        "IA 1 0xff0000000111", OF ia_shape_111]
    by (simp add: l3_shape_def not_rbracket_def sample_env_def sample_IAFromString_def
        sample_HostSVCFromString_def sample_HostFromIPStr_def)
  have 2: "addrFromString sample_env (''1-ff00:0:112'' @ '',['' @ ''CS'' @ '']'')
     = (\<lparr>IA_of = IA 1 0xff0000000112, Host = Some (HostSVC 2)\<rparr>, None)"
    using addrFromString_well_formed [of "''1-ff00:0:112''" "''CS''" sample_env
        "IA 1 0xff0000000112", OF ia_shape_112]
    by (simp add: l3_shape_def not_rbracket_def sample_env_def sample_IAFromString_def
        sample_HostSVCFromString_def sample_HostFromIPStr_def)
  from 1 2 show ?thesis by simp
qed

text \<open>
  Claim C3. \<^verbatim>\<open>addrFromString\<close> succeeds exactly on the texts of the parser's expression
  whose first group is a valid IA string and whose second group names a service or is a
  valid IP literal. On every other text it returns the zero address with an error: the
  error \<^verbatim>\<open>no valid SCION address\<close> with the text when the expression does not match, the
  error \<^verbatim>\<open>invalid IA string\<close> with the first group when that is no IA, and the error
  \<^verbatim>\<open>invalid IP address string\<close> with the second group when that is neither a service
  nor an IP literal.
\<close>

theorem addrFromString_errors:
  "(snd (addrFromString lib address) \<noteq> None \<longrightarrow>
      fst (addrFromString lib address) = zero_SCIONAddress)
   \<and> ((\<forall>ia l3. \<not> addrRegexp_matches address ia l3) \<longrightarrow>
        addrFromString lib address =
          (zero_SCIONAddress, Some (Errorf ''no valid SCION address: %q'' address)))
   \<and> (\<forall>ia l3 e. addrRegexp_matches address ia l3 \<and> IAFromString lib ia = Inl e \<longrightarrow>
        addrFromString lib address =
          (zero_SCIONAddress, Some (Errorf ''invalid IA string: %v'' ia)))
   \<and> (\<forall>ia l3 v. addrRegexp_matches address ia l3 \<and> IAFromString lib ia = Inr v
          \<and> HostSVCFromString lib l3 = SvcNone lib \<and> HostFromIPStr lib l3 = None \<longrightarrow>
        addrFromString lib address =
          (zero_SCIONAddress, Some (Errorf ''invalid IP address string: %v'' l3)))
   \<and> (snd (addrFromString lib address) = None \<longleftrightarrow>
        (\<exists>ia l3 v. addrRegexp_matches address ia l3 \<and> IAFromString lib ia = Inr v
           \<and> (HostSVCFromString lib l3 \<noteq> SvcNone lib \<or> HostFromIPStr lib l3 \<noteq> None)))"
proof (cases "\<exists>ia l3. addrRegexp_matches address ia l3")
  case False
  then have n: "\<forall>ia l3. \<not> addrRegexp_matches address ia l3" by blast
  from addrFromString_nomatch [OF n, of lib] n show ?thesis by simp
next
  case True
  then obtain ia l3 where m: "addrRegexp_matches address ia l3" by blast
  have u: "ia' = ia \<and> l3' = l3" if "addrRegexp_matches address ia' l3'" for ia' l3'
    using match_imp_find [OF that] match_imp_find [OF m] by simp
  note eq = addrFromString_match [OF m, of lib]
  show ?thesis
  proof (intro conjI allI impI)
    show "fst (addrFromString lib address) = zero_SCIONAddress"
      if "snd (addrFromString lib address) \<noteq> None"
      using that unfolding eq by (auto split: sum.splits option.splits if_splits)
    show "addrFromString lib address =
          (zero_SCIONAddress, Some (Errorf ''no valid SCION address: %q'' address))"
      if "\<forall>ia l3. \<not> addrRegexp_matches address ia l3"
      using that m by blast
    show "addrFromString lib address =
          (zero_SCIONAddress, Some (Errorf ''invalid IA string: %v'' ia'))"
      if "addrRegexp_matches address ia' l3' \<and> IAFromString lib ia' = Inl e" for ia' l3' e
      using that u [of ia' l3'] unfolding eq by simp
    show "addrFromString lib address =
          (zero_SCIONAddress, Some (Errorf ''invalid IP address string: %v'' l3'))"
      if "addrRegexp_matches address ia' l3' \<and> IAFromString lib ia' = Inr v
          \<and> HostSVCFromString lib l3' = SvcNone lib \<and> HostFromIPStr lib l3' = None"
      for ia' l3' v
      using that u [of ia' l3'] unfolding eq by simp
    show "snd (addrFromString lib address) = None \<longleftrightarrow>
        (\<exists>ia l3 v. addrRegexp_matches address ia l3 \<and> IAFromString lib ia = Inr v
           \<and> (HostSVCFromString lib l3 \<noteq> SvcNone lib \<or> HostFromIPStr lib l3 \<noteq> None))"
    proof
      assume "snd (addrFromString lib address) = None"
      then have "\<exists>v. IAFromString lib ia = Inr v
           \<and> (HostSVCFromString lib l3 \<noteq> SvcNone lib \<or> HostFromIPStr lib l3 \<noteq> None)"
        unfolding eq by (auto split: sum.splits option.splits if_splits)
      with m show "\<exists>ia l3 v. addrRegexp_matches address ia l3 \<and> IAFromString lib ia = Inr v
           \<and> (HostSVCFromString lib l3 \<noteq> SvcNone lib \<or> HostFromIPStr lib l3 \<noteq> None)"
        by blast
    next
      assume "\<exists>ia l3 v. addrRegexp_matches address ia l3 \<and> IAFromString lib ia = Inr v
           \<and> (HostSVCFromString lib l3 \<noteq> SvcNone lib \<or> HostFromIPStr lib l3 \<noteq> None)"
      then obtain ia' l3' v where "addrRegexp_matches address ia' l3'"
        and "IAFromString lib ia' = Inr v"
        and "HostSVCFromString lib l3' \<noteq> SvcNone lib \<or> HostFromIPStr lib l3' \<noteq> None"
        by blast
      with u [of ia' l3'] show "snd (addrFromString lib address) = None"
        unfolding eq by (auto split: option.splits)
    qed
  qed
qed

theorem addrFromString_errors_witness:
  "addrFromString sample_env ''127.0.0.1''
     = (zero_SCIONAddress, Some (Errorf ''no valid SCION address: %q'' ''127.0.0.1''))
   \<and> addrFromString sample_env ''1-1,[127.0.0.1]''
     = (zero_SCIONAddress, Some (Errorf ''invalid IA string: %v'' ''1-1''))
   \<and> addrFromString sample_env ''1-ff00:0:111,[localhost]''
     = (zero_SCIONAddress, Some (Errorf ''invalid IP address string: %v'' ''localhost''))"
proof -
  have "addrRegexp_FindStringSubmatch ''127.0.0.1'' = None"
    by (simp add: addrRegexp_FindStringSubmatch_def is_digit_def Let_def)
  then have n: "\<forall>ia l3. \<not> addrRegexp_matches ''127.0.0.1'' ia l3"
    by (simp add: find_None_iff)
  have m2: "addrRegexp_matches ''1-1,[127.0.0.1]'' ''1-1'' ''127.0.0.1''"
    by (simp add: addrRegexp_matches_def ia_shape_1_1 l3_shape_def not_rbracket_def)
  have e2: "IAFromString sample_env ''1-1'' = Inl (LibError ''Invalid ISD-AS'')"
    by (simp add: sample_env_def sample_IAFromString_def)
  have m3: "addrRegexp_matches ''1-ff00:0:111,[localhost]'' ''1-ff00:0:111'' ''localhost''"
    by (simp add: addrRegexp_matches_def ia_shape_111 l3_shape_def not_rbracket_def)
  have e3: "IAFromString sample_env ''1-ff00:0:111'' = Inr (IA 1 0xff0000000111)
      \<and> HostSVCFromString sample_env ''localhost'' = SvcNone sample_env
      \<and> HostFromIPStr sample_env ''localhost'' = None"
    by (simp add: sample_env_def sample_IAFromString_def sample_HostSVCFromString_def
        sample_HostFromIPStr_def)
  from addrFromString_errors [of sample_env "''127.0.0.1''"] n
  have 1: "addrFromString sample_env ''127.0.0.1''
     = (zero_SCIONAddress, Some (Errorf ''no valid SCION address: %q'' ''127.0.0.1''))"
    by blast
  from addrFromString_errors [of sample_env "''1-1,[127.0.0.1]''"] m2 e2
  have 2: "addrFromString sample_env ''1-1,[127.0.0.1]''
     = (zero_SCIONAddress, Some (Errorf ''invalid IA string: %v'' ''1-1''))"
    by blast
  from addrFromString_errors [of sample_env "''1-ff00:0:111,[localhost]''"] m3 e3
  have 3: "addrFromString sample_env ''1-ff00:0:111,[localhost]''
     = (zero_SCIONAddress, Some (Errorf ''invalid IP address string: %v'' ''localhost''))"
    by blast
  from 1 2 3 show ?thesis by blast
qed

section \<open>Properties of the two C callers\<close>

lemmas shim_defs = GetDelegationSecret_def sciond_Connect_def sciond_DRKeyGetLvl2Key_def
  check_def copy_bytes_def Let_def

lemma GetDelegationSecret_packed_eq:
  "GetDelegationSecret_packed env a x y t buf s mem =
     GetDelegationSecret env a x y t buf (buf + 8) (buf + 16) s mem"
  by (simp add: GetDelegationSecret_packed_def shim_defs)

lemma GetDelegationSecret_res_state:
  "fst (GetDelegationSecret env a x y t p1 p2 p3 s m) =
     fst (GetDelegationSecret env a x y t q1 q2 q3 s m')
   \<and> fst (snd (GetDelegationSecret env a x y t p1 p2 p3 s m)) =
     fst (snd (GetDelegationSecret env a x y t q1 q2 q3 s m'))"
  by (simp add: shim_defs split: prod.splits sum.splits)

lemma GetDelegationSecret_two_runs:
  assumes "fst (GetDelegationSecret env a x y t p1 p2 p3 s m) = Ok ()"
  shows "\<exists>nb na k. length k \<le> 16
     \<and> snd (snd (GetDelegationSecret env a x y t p1 p2 p3 s m)) =
         store_bytes (store_int64 (nativeEndian env)
           (store_int64 (nativeEndian env) m p1 nb) p2 na) p3 k
     \<and> snd (snd (GetDelegationSecret env a x y t q1 q2 q3 s m')) =
         store_bytes (store_int64 (nativeEndian env)
           (store_int64 (nativeEndian env) m' q1 nb) q2 na) q3 k"
proof -
  from assms obtain sd w1 lvl2Key w2 where
    c: "Connect env a (world s) = (Inr sd, w1)" and
    r: "DRKeyGetLvl2Key env sd (WithTimeout Background (10 * Second))
        \<lparr>KeyType = AS2AS, Protocol = ''piskes'', Epoch = zero_Epoch,
         SrcIA = IAInt_IA env x, DstIA = IAInt_IA env y,
         SrcHost = None, DstHost = None\<rparr>
        (UTC (time_Unix t 0)) w1 = (Inr lvl2Key, w2)"
    by (auto simp: shim_defs split: prod.splits sum.splits)
  show ?thesis
    by (intro exI [of _ "Unix (NotBefore (Epoch lvl2Key))"]
        exI [of _ "Unix (NotAfter (Epoch lvl2Key))"] exI [of _ "take 16 (Key lvl2Key)"])
       (simp add: shim_defs c r)
qed

lemma memcpy_apply:
  "memcpy m dst src n a = (if dst \<le> a \<and> a < dst + n then m (src + (a - dst)) else m a)"
  by (auto simp: memcpy_def store_bytes_def load_bytes_def)

lemma load_bytes_eq_iff:
  "load_bytes m p n = load_bytes m' p' n \<longleftrightarrow> (\<forall>i<n. m (p + i) = m' (p' + i))"
  by (auto simp: load_bytes_def list_eq_iff_nth_eq)

lemma load_bytes_sub:
  assumes "load_bytes m p n = load_bytes m' p' n" and "k + l \<le> n"
  shows "load_bytes m (p + k) l = load_bytes m' (p' + k) l"
proof -
  from assms(1) have a: "\<forall>i<n. m (p + i) = m' (p' + i)" by (simp add: load_bytes_eq_iff)
  have "\<forall>i<l. m (p + k + i) = m' (p' + k + i)"
  proof (intro allI impI)
    fix i assume "i < l"
    with assms(2) have "k + i < n" by simp
    with a have "m (p + (k + i)) = m' (p' + (k + i))" by blast
    then show "m (p + k + i) = m' (p' + k + i)" by (simp add: add.assoc)
  qed
  then show ?thesis by (simp add: load_bytes_eq_iff)
qed

lemma read_ds_cong:
  assumes "load_bytes m p 32 = load_bytes m' p' 32"
  shows "read_ds bo m p = read_ds bo m' p'"
  using load_bytes_sub [OF assms, of 0 8] load_bytes_sub [OF assms, of 8 8]
    load_bytes_sub [OF assms, of 16 16]
  by (simp add: read_ds_def load_int64_def)

lemma struct_bytes:
  assumes "length k \<le> 16"
  shows "\<forall>i<32. store_bytes (store_int64 bo (store_int64 bo (memset m p 0 32) p nb) (p + 8) na)
                   (p + 16) k (p + i)
               = (int64_bytes bo nb @ int64_bytes bo na @ k @ replicate (16 - length k) 0) ! i"
  using assms
  by (auto simp: store_bytes_def store_int64_def memset_def length_int64_bytes nth_append)

lemma memcpy_three:
  assumes "ds_buf + 32 \<le> ds' \<or> ds' + 32 \<le> ds_buf" and "i < 32"
  shows "memcpy (memcpy (memcpy m ds' ds_buf 8) (ds' + 8) (ds_buf + 8) 8)
           (ds' + 16) (ds_buf + 16) 16 (ds' + i) = m (ds_buf + i)"
    and "memcpy (memcpy (memcpy m ds' ds_buf 8) (ds' + 8) (ds_buf + 8) 8)
           (ds' + 16) (ds_buf + 16) 16 (ds_buf + i) = m (ds_buf + i)"
  using assms by (auto simp: memcpy_apply)

lemma packed_main_eq:
  "packed_main env t_now ds' ds_buf s mem' =
     (case GetDelegationSecret env ''127.0.0.1:30255'' 0x0011ffaa00010d69 0x0011ffaa00010e97
             t_now ds_buf (ds_buf + 8) (ds_buf + 16) s (memset mem' ds_buf 0 32) of
        (r, s1, m1) \<Rightarrow>
          (r, s1,
           if r = Ok ()
           then memcpy (memcpy (memcpy m1 ds' ds_buf 8) (ds' + 8) (ds_buf + 8) 8)
                  (ds' + 16) (ds_buf + 16) 16
           else m1))"
  by (auto simp: packed_main_def GetDelegationSecret_packed_eq Let_def
      split: prod.splits res.splits)

text \<open>
  Claim C7. The packed-buffer variant writes at the offsets 0, 8 and 16 of its buffer what
  the variant of the source writes through its three pointers. So from the same state of the
  environment the two C programs end in the same way, with the same calls made to the
  daemon, and when the call returns the 32 bytes of the packed buffer, and the 32 bytes of
  the struct the second program copies them into, are the 32 bytes of the struct of the
  first program: decoded as two integers and a key they give the same values. The buffer
  and the struct of the second program are distinct objects.
\<close>

theorem packed_variant_agrees_with_discrete:
  assumes disj: "ds_buf + 32 \<le> ds' \<or> ds' + 32 \<le> ds_buf"
  shows "GetDelegationSecret_packed env a x y t buf s mem =
           GetDelegationSecret env a x y t buf (buf + 8) (buf + 16) s mem
   \<and> fst (packed_main env t_now ds' ds_buf s mem') = fst (hellolibdrkey_main env t_now ds s mem)
   \<and> fst (snd (packed_main env t_now ds' ds_buf s mem')) =
       fst (snd (hellolibdrkey_main env t_now ds s mem))
   \<and> (fst (hellolibdrkey_main env t_now ds s mem) = Ok () \<longrightarrow>
        load_bytes (snd (snd (packed_main env t_now ds' ds_buf s mem'))) ds_buf 32 =
          load_bytes (snd (snd (hellolibdrkey_main env t_now ds s mem))) ds 32
      \<and> load_bytes (snd (snd (packed_main env t_now ds' ds_buf s mem'))) ds' 32 =
          load_bytes (snd (snd (hellolibdrkey_main env t_now ds s mem))) ds 32
      \<and> read_ds (nativeEndian env) (snd (snd (packed_main env t_now ds' ds_buf s mem'))) ds' =
          read_ds (nativeEndian env) (snd (snd (hellolibdrkey_main env t_now ds s mem))) ds)"
proof -
  let ?D = "GetDelegationSecret env ''127.0.0.1:30255'' 0x0011ffaa00010d69 0x0011ffaa00010e97
              t_now ds (ds + 8) (ds + 16) s (memset mem ds 0 32)"
  let ?P = "GetDelegationSecret env ''127.0.0.1:30255'' 0x0011ffaa00010d69 0x0011ffaa00010e97
              t_now ds_buf (ds_buf + 8) (ds_buf + 16) s (memset mem' ds_buf 0 32)"
  have D: "hellolibdrkey_main env t_now ds s mem = ?D"
    by (simp add: hellolibdrkey_main_def)
  have rs: "fst ?P = fst ?D \<and> fst (snd ?P) = fst (snd ?D)"
    by (rule GetDelegationSecret_res_state)
  have P1: "fst (packed_main env t_now ds' ds_buf s mem') = fst ?P"
    and P2: "fst (snd (packed_main env t_now ds' ds_buf s mem')) = fst (snd ?P)"
    and P3: "snd (snd (packed_main env t_now ds' ds_buf s mem')) =
          (if fst ?P = Ok ()
           then memcpy (memcpy (memcpy (snd (snd ?P)) ds' ds_buf 8) (ds' + 8) (ds_buf + 8) 8)
                  (ds' + 16) (ds_buf + 16) 16
           else snd (snd ?P))"
    by (simp_all add: packed_main_eq split: prod.splits)
  have mem: "load_bytes (snd (snd (packed_main env t_now ds' ds_buf s mem'))) ds_buf 32 =
          load_bytes (snd (snd ?D)) ds 32
      \<and> load_bytes (snd (snd (packed_main env t_now ds' ds_buf s mem'))) ds' 32 =
          load_bytes (snd (snd ?D)) ds 32"
    if ok: "fst ?D = Ok ()"
  proof -
    from GetDelegationSecret_two_runs [OF ok, of ds_buf "ds_buf + 8" "ds_buf + 16"
        "memset mem' ds_buf 0 32"]
    obtain nb na k where k: "length k \<le> 16"
      and d: "snd (snd ?D) = store_bytes (store_int64 (nativeEndian env)
           (store_int64 (nativeEndian env) (memset mem ds 0 32) ds nb) (ds + 8) na) (ds + 16) k"
      and p: "snd (snd ?P) = store_bytes (store_int64 (nativeEndian env)
           (store_int64 (nativeEndian env) (memset mem' ds_buf 0 32) ds_buf nb)
           (ds_buf + 8) na) (ds_buf + 16) k"
      by blast
    from struct_bytes [OF k, of "nativeEndian env" mem ds nb na]
      struct_bytes [OF k, of "nativeEndian env" mem' ds_buf nb na]
    have same: "\<forall>i<32. snd (snd ?P) (ds_buf + i) = snd (snd ?D) (ds + i)"
      unfolding d p by simp
    from ok rs have okP: "fst ?P = Ok ()" by simp
    have "\<forall>i<32. snd (snd (packed_main env t_now ds' ds_buf s mem')) (ds_buf + i)
            = snd (snd ?D) (ds + i)"
      using same memcpy_three(2) [OF disj] by (simp add: P3 okP)
    moreover have "\<forall>i<32. snd (snd (packed_main env t_now ds' ds_buf s mem')) (ds' + i)
            = snd (snd ?D) (ds + i)"
      using same memcpy_three(1) [OF disj] by (simp add: P3 okP)
    ultimately show ?thesis
      by (simp add: load_bytes_eq_iff)
  qed
  have rd: "read_ds (nativeEndian env) (snd (snd (packed_main env t_now ds' ds_buf s mem'))) ds' =
          read_ds (nativeEndian env) (snd (snd ?D)) ds"
    if ok: "fst ?D = Ok ()"
    using mem [OF ok] by (intro read_ds_cong) simp
  from rs P1 P2 mem rd show ?thesis
    unfolding D by (simp add: GetDelegationSecret_packed_eq)
qed

theorem packed_variant_agrees_with_discrete_witness:
  "fst (hellolibdrkey_main sample_env 1600000000 100 sample_state sample_memory) = Ok ()
   \<and> fst (packed_main sample_env 1600000000 200 300 sample_state sample_memory) = Ok ()
   \<and> load_bytes (snd (snd (packed_main sample_env 1600000000 200 300 sample_state
        sample_memory))) 300 32
     = load_bytes (snd (snd (hellolibdrkey_main sample_env 1600000000 100 sample_state
        sample_memory))) 100 32
   \<and> read_ds LittleEndian (snd (snd (packed_main sample_env 1600000000 200 300 sample_state
        sample_memory))) 200
     = read_ds LittleEndian (snd (snd (hellolibdrkey_main sample_env 1600000000 100
        sample_state sample_memory))) 100"
proof -
  have ok: "fst (hellolibdrkey_main sample_env 1600000000 100 sample_state sample_memory)
              = Ok ()"
    by (simp add: hellolibdrkey_main_def shim_defs sample_defs)
  have disj: "(300::nat) + 32 \<le> 200 \<or> (200::nat) + 32 \<le> 300" by simp
  have ne: "nativeEndian sample_env = LittleEndian" by (simp add: sample_env_def)
  from packed_variant_agrees_with_discrete [OF disj, where env = sample_env
      and s = sample_state and mem = sample_memory and mem' = sample_memory
      and ds = 100 and t_now = 1600000000] ok ne
  show ?thesis by simp
qed

section \<open>Properties of the driver\<close>

lemma roles_run_append:
  "roles_run (s\<lparr>stdout := stdout s @ outs\<rparr>) = roles_run s @ List.map_filter role_of outs"
  by (simp add: roles_run_def List.map_filter_def)

lemma roles_run_world [simp]: "roles_run (s\<lparr>world := w\<rparr>) = roles_run s"
  by (simp add: roles_run_def)

lemma roles_run_trace [simp]: "roles_run (s\<lparr>trace := t\<rparr>) = roles_run s"
  by (simp add: roles_run_def)

lemma roles_run_Printf:
  "roles_run (fmt_Printf f args s) =
     roles_run s @ (case role_of (Printf f args) of None \<Rightarrow> [] | Some r \<Rightarrow> [r])"
  by (simp add: fmt_Printf_def roles_run_def List.map_filter_def split: option.splits)

lemma roles_run_Connect: "roles_run (snd (sciond_Connect env a s)) = roles_run s"
  by (simp add: sciond_Connect_def split: prod.splits)

lemma roles_run_Request:
  "roles_run (snd (sciond_DRKeyGetLvl2Key env sd ctx meta t s)) = roles_run s"
  by (simp add: sciond_DRKeyGetLvl2Key_def split: prod.splits)

lemma roles_run_Now: "roles_run (snd (Now env s)) = roles_run s"
  by (simp add: Now_def split: prod.splits)

lemma dsForServer_roles:
  "dsForServer env srv meta s = (r, s') \<Longrightarrow> roles_run s' = roles_run s"
  by (cases srv)
     (auto simp: sciond_DRKeyGetLvl2Key_def Now_def check_def Let_def roles_run_Printf
        role_of_def split: prod.splits sum.splits)

lemma client_role_roles:
  "client_role env a x y s = (Ok u, s') \<Longrightarrow> roles_run s' = roles_run s @ [ClientRole]"
  by (auto simp: client_role_def ThisClientAndMeta_def NewClient_def sciond_Connect_def
        sciond_DRKeyGetLvl2Key_def Now_def check_def Let_def roles_run_Printf role_of_def
      split: prod.splits sum.splits res.splits)

lemma server_role_roles:
  assumes "server_role env a x y s = (Ok u, s')"
  shows "roles_run s' = roles_run s @ [ServerRole]"
proof -
  from assms obtain sd s1 ds s2 where
    "sciond_Connect env a s = (Inr sd, s1)"
    and d: "dsForServer env (Server sd)
         \<lparr>KeyType = Host2Host, Protocol = ''piskes'', Epoch = zero_Epoch,
          SrcIA = IA_of x, DstIA = IA_of y, SrcHost = Host x, DstHost = Host y\<rparr> s1
          = (Ok ds, s2)"
    and r: "roles_run s' = roles_run s2 @ [ServerRole]"
    by (auto simp: server_role_def ThisServerAndMeta_def NewServer_def Now_def check_def
          roles_run_Printf role_of_def
        split: prod.splits sum.splits res.splits)
  then have "roles_run s1 = roles_run s"
    using roles_run_Connect [of env a s] by simp
  with dsForServer_roles [OF d] r show ?thesis by simp
qed

lemmas role_defs = client_role_def server_role_def ThisClientAndMeta_def ThisServerAndMeta_def
  NewClient_def NewServer_def HostKeyFromDS_def sciond_Connect_def sciond_DRKeyGetLvl2Key_def
  Now_def check_def fmt_Printf_def Let_def

lemma sample_src:
  "addrFromString sample_env ''1-ff00:0:111,[127.0.0.1]''
     = (\<lparr>IA_of = IA 1 0xff0000000111, Host = Some (HostIPv4 [127, 0, 0, 1])\<rparr>, None)"
proof -
  have "addrRegexp_matches ''1-ff00:0:111,[127.0.0.1]'' ''1-ff00:0:111'' ''127.0.0.1''"
    by (simp add: addrRegexp_matches_def ia_shape_111 l3_shape_def not_rbracket_def)
  from addrFromString_match [OF this, of sample_env] show ?thesis
    by (simp add: sample_env_def sample_IAFromString_def sample_HostSVCFromString_def
        sample_HostFromIPStr_def)
qed

lemma sample_dst:
  "addrFromString sample_env ''1-ff00:0:112,[fd00:f00d:cafe::7f00:a]''
     = (\<lparr>IA_of = IA 1 0xff0000000112,
         Host = Some (HostIPv6 [0xfd, 0, 0xf0, 0x0d, 0xca, 0xfe, 0, 0, 0, 0, 0, 0,
                                0x7f, 0, 0, 0x0a])\<rparr>, None)"
proof -
  have "addrRegexp_matches ''1-ff00:0:112,[fd00:f00d:cafe::7f00:a]'' ''1-ff00:0:112''
          ''fd00:f00d:cafe::7f00:a''"
    by (simp add: addrRegexp_matches_def ia_shape_112 l3_shape_def not_rbracket_def)
  from addrFromString_match [OF this, of sample_env] show ?thesis
    by (simp add: sample_env_def sample_IAFromString_def sample_HostSVCFromString_def
        sample_HostFromIPStr_def)
qed

lemma sample_client_role:
  "fst (client_role sample_env ''127.0.0.1:30255''
     \<lparr>IA_of = IA 1 0xff0000000111, Host = Some (HostIPv4 [127, 0, 0, 1])\<rparr>
     \<lparr>IA_of = IA 1 0xff0000000112,
         Host = Some (HostIPv6 [0xfd, 0, 0xf0, 0x0d, 0xca, 0xfe, 0, 0, 0, 0, 0, 0,
                                0x7f, 0, 0, 0x0a])\<rparr> s) = Ok ()"
  by (simp add: role_defs sample_defs split: prod.splits)

lemma sample_server_role:
  "fst (server_role sample_env ''127.0.0.1:30255''
     \<lparr>IA_of = IA 1 0xff0000000111, Host = Some (HostIPv4 [127, 0, 0, 1])\<rparr>
     \<lparr>IA_of = IA 1 0xff0000000112,
         Host = Some (HostIPv6 [0xfd, 0, 0xf0, 0x0d, 0xca, 0xfe, 0, 0, 0, 0, 0, 0,
                                0x7f, 0, 0, 0x0a])\<rparr> s) = Ok ()"
  by (simp add: role_defs sample_defs sample_KnownDerivations_def sample_piskes_def
      split: prod.splits)

text \<open>
  Claim C8, as the code has it. Let both endpoint strings parse. With neither flag both
  roles are enabled: \<^verbatim>\<open>main\<close> runs the client role and, if that does not panic, the server
  role after it, and a run that returns has printed one client line and then one server
  line. With the client flag alone \<^verbatim>\<open>main\<close> runs the client role and nothing else, with the
  server flag alone the server role and nothing else.
\<close>

theorem main_roles:
  assumes src: "addrFromString env (flag_src flags) = (srcSCIONAddr, None)"
    and dst: "addrFromString env (flag_dst flags) = (dstSCIONAddr, None)"
  shows
   "(\<not> flag_client flags \<and> \<not> flag_server flags \<longrightarrow>
       main env flags s =
         (case client_role env (flag_sciond flags) srcSCIONAddr dstSCIONAddr s of
            (Panic p, s1) \<Rightarrow> (Panicked p, s1)
          | (Ok u, s1) \<Rightarrow>
              (case server_role env (flag_sciond flags) srcSCIONAddr dstSCIONAddr s1 of
                 (Panic p, s2) \<Rightarrow> (Panicked p, s2)
               | (Ok u', s2) \<Rightarrow> (Returned, s2)))
     \<and> (\<forall>s'. main env flags s = (Returned, s') \<longrightarrow>
            roles_run s' = roles_run s @ [ClientRole, ServerRole]))
    \<and> (flag_client flags \<and> \<not> flag_server flags \<longrightarrow>
       main env flags s =
         (case client_role env (flag_sciond flags) srcSCIONAddr dstSCIONAddr s of
            (Panic p, s1) \<Rightarrow> (Panicked p, s1)
          | (Ok u, s1) \<Rightarrow> (Returned, s1))
     \<and> (\<forall>s'. main env flags s = (Returned, s') \<longrightarrow> roles_run s' = roles_run s @ [ClientRole]))
    \<and> (\<not> flag_client flags \<and> flag_server flags \<longrightarrow>
       main env flags s =
         (case server_role env (flag_sciond flags) srcSCIONAddr dstSCIONAddr s of
            (Panic p, s1) \<Rightarrow> (Panicked p, s1)
          | (Ok u, s1) \<Rightarrow> (Returned, s1))
     \<and> (\<forall>s'. main env flags s = (Returned, s') \<longrightarrow> roles_run s' = roles_run s @ [ServerRole]))"
proof (intro conjI impI)
  assume f: "\<not> flag_client flags \<and> \<not> flag_server flags"
  show eq: "main env flags s =
         (case client_role env (flag_sciond flags) srcSCIONAddr dstSCIONAddr s of
            (Panic p, s1) \<Rightarrow> (Panicked p, s1)
          | (Ok u, s1) \<Rightarrow>
              (case server_role env (flag_sciond flags) srcSCIONAddr dstSCIONAddr s1 of
                 (Panic p, s2) \<Rightarrow> (Panicked p, s2)
               | (Ok u', s2) \<Rightarrow> (Returned, s2)))"
    using f src dst by (simp add: main_def split: prod.splits res.splits)
  show "\<forall>s'. main env flags s = (Returned, s') \<longrightarrow>
            roles_run s' = roles_run s @ [ClientRole, ServerRole]"
  proof (intro allI impI)
    fix s' assume "main env flags s = (Returned, s')"
    with eq obtain u s1 u' where
      c: "client_role env (flag_sciond flags) srcSCIONAddr dstSCIONAddr s = (Ok u, s1)"
      and v: "server_role env (flag_sciond flags) srcSCIONAddr dstSCIONAddr s1 = (Ok u', s')"
      by (auto split: prod.splits res.splits)
    from client_role_roles [OF c] server_role_roles [OF v]
    show "roles_run s' = roles_run s @ [ClientRole, ServerRole]" by simp
  qed
next
  assume f: "flag_client flags \<and> \<not> flag_server flags"
  show eq: "main env flags s =
         (case client_role env (flag_sciond flags) srcSCIONAddr dstSCIONAddr s of
            (Panic p, s1) \<Rightarrow> (Panicked p, s1)
          | (Ok u, s1) \<Rightarrow> (Returned, s1))"
    using f src dst by (simp add: main_def split: prod.splits res.splits)
  show "\<forall>s'. main env flags s = (Returned, s') \<longrightarrow> roles_run s' = roles_run s @ [ClientRole]"
  proof (intro allI impI)
    fix s' assume "main env flags s = (Returned, s')"
    with eq obtain u where
      c: "client_role env (flag_sciond flags) srcSCIONAddr dstSCIONAddr s = (Ok u, s')"
      by (auto split: prod.splits res.splits)
    from client_role_roles [OF c]
    show "roles_run s' = roles_run s @ [ClientRole]" .
  qed
next
  assume f: "\<not> flag_client flags \<and> flag_server flags"
  show eq: "main env flags s =
         (case server_role env (flag_sciond flags) srcSCIONAddr dstSCIONAddr s of
            (Panic p, s1) \<Rightarrow> (Panicked p, s1)
          | (Ok u, s1) \<Rightarrow> (Returned, s1))"
    using f src dst by (simp add: main_def split: prod.splits res.splits)
  show "\<forall>s'. main env flags s = (Returned, s') \<longrightarrow> roles_run s' = roles_run s @ [ServerRole]"
  proof (intro allI impI)
    fix s' assume "main env flags s = (Returned, s')"
    with eq obtain u where
      c: "server_role env (flag_sciond flags) srcSCIONAddr dstSCIONAddr s = (Ok u, s')"
      by (auto split: prod.splits res.splits)
    from server_role_roles [OF c]
    show "roles_run s' = roles_run s @ [ServerRole]" .
  qed
qed

theorem main_roles_witness:
  "(\<exists>s'. main sample_env default_Flags sample_state = (Returned, s')
       \<and> roles_run s' = [ClientRole, ServerRole])
   \<and> (\<exists>s'. main sample_env (default_Flags\<lparr>flag_client := True\<rparr>) sample_state = (Returned, s')
       \<and> roles_run s' = [ClientRole])
   \<and> (\<exists>s'. main sample_env (default_Flags\<lparr>flag_server := True\<rparr>) sample_state = (Returned, s')
       \<and> roles_run s' = [ServerRole])"
proof -
  have r0: "roles_run sample_state = []"
    by (simp add: roles_run_def sample_state_def List.map_filter_def)
  have src: "addrFromString sample_env (flag_src default_Flags)
     = (\<lparr>IA_of = IA 1 0xff0000000111, Host = Some (HostIPv4 [127, 0, 0, 1])\<rparr>, None)"
    using sample_src by (simp add: default_Flags_def)
  have dst: "addrFromString sample_env (flag_dst default_Flags)
     = (\<lparr>IA_of = IA 1 0xff0000000112,
         Host = Some (HostIPv6 [0xfd, 0, 0xf0, 0x0d, 0xca, 0xfe, 0, 0, 0, 0, 0, 0,
                                0x7f, 0, 0, 0x0a])\<rparr>, None)"
    using sample_dst by (simp add: default_Flags_def)
  have sc: "flag_sciond default_Flags = ''127.0.0.1:30255''"
    by (simp add: default_Flags_def)
  have 1: "\<exists>s'. main sample_env default_Flags sample_state = (Returned, s')
       \<and> roles_run s' = [ClientRole, ServerRole]"
  proof -
    have f: "\<not> flag_client default_Flags \<and> \<not> flag_server default_Flags"
      by (simp add: default_Flags_def)
    note t = main_roles [OF src dst, of sample_state, THEN conjunct1, rule_format, OF f]
    obtain s1 where c: "client_role sample_env ''127.0.0.1:30255''
        \<lparr>IA_of = IA 1 0xff0000000111, Host = Some (HostIPv4 [127, 0, 0, 1])\<rparr>
        \<lparr>IA_of = IA 1 0xff0000000112,
         Host = Some (HostIPv6 [0xfd, 0, 0xf0, 0x0d, 0xca, 0xfe, 0, 0, 0, 0, 0, 0,
                                0x7f, 0, 0, 0x0a])\<rparr> sample_state = (Ok (), s1)"
      using sample_client_role [of sample_state] by (metis prod.collapse)
    obtain s' where v: "server_role sample_env ''127.0.0.1:30255''
        \<lparr>IA_of = IA 1 0xff0000000111, Host = Some (HostIPv4 [127, 0, 0, 1])\<rparr>
        \<lparr>IA_of = IA 1 0xff0000000112,
         Host = Some (HostIPv6 [0xfd, 0, 0xf0, 0x0d, 0xca, 0xfe, 0, 0, 0, 0, 0, 0,
                                0x7f, 0, 0, 0x0a])\<rparr> s1 = (Ok (), s')"
      using sample_server_role [of s1] by (metis prod.collapse)
    from t [THEN conjunct1] c v
    have m: "main sample_env default_Flags sample_state = (Returned, s')"
      by (simp add: sc)
    from t [THEN conjunct2, rule_format, OF m] r0 m show ?thesis by simp
  qed
  have 2: "\<exists>s'. main sample_env (default_Flags\<lparr>flag_client := True\<rparr>) sample_state = (Returned, s')
       \<and> roles_run s' = [ClientRole]"
  proof -
    have f: "flag_client (default_Flags\<lparr>flag_client := True\<rparr>)
        \<and> \<not> flag_server (default_Flags\<lparr>flag_client := True\<rparr>)"
      by (simp add: default_Flags_def)
    have src': "addrFromString sample_env (flag_src (default_Flags\<lparr>flag_client := True\<rparr>))
     = (\<lparr>IA_of = IA 1 0xff0000000111, Host = Some (HostIPv4 [127, 0, 0, 1])\<rparr>, None)"
      using src by simp
    have dst': "addrFromString sample_env (flag_dst (default_Flags\<lparr>flag_client := True\<rparr>))
     = (\<lparr>IA_of = IA 1 0xff0000000112,
         Host = Some (HostIPv6 [0xfd, 0, 0xf0, 0x0d, 0xca, 0xfe, 0, 0, 0, 0, 0, 0,
                                0x7f, 0, 0, 0x0a])\<rparr>, None)"
      using dst by simp
    note t = main_roles [OF src' dst', of sample_state, THEN conjunct2, THEN conjunct1,
        rule_format, OF f]
    obtain s' where c: "client_role sample_env ''127.0.0.1:30255''
        \<lparr>IA_of = IA 1 0xff0000000111, Host = Some (HostIPv4 [127, 0, 0, 1])\<rparr>
        \<lparr>IA_of = IA 1 0xff0000000112,
         Host = Some (HostIPv6 [0xfd, 0, 0xf0, 0x0d, 0xca, 0xfe, 0, 0, 0, 0, 0, 0,
                                0x7f, 0, 0, 0x0a])\<rparr> sample_state = (Ok (), s')"
      using sample_client_role [of sample_state] by (metis prod.collapse)
    from t [THEN conjunct1] c
    have m: "main sample_env (default_Flags\<lparr>flag_client := True\<rparr>) sample_state
               = (Returned, s')"
      by (simp add: sc)
    from t [THEN conjunct2, rule_format, OF m] r0 m show ?thesis by simp
  qed
  have 3: "\<exists>s'. main sample_env (default_Flags\<lparr>flag_server := True\<rparr>) sample_state = (Returned, s')
       \<and> roles_run s' = [ServerRole]"
  proof -
    have f: "\<not> flag_client (default_Flags\<lparr>flag_server := True\<rparr>)
        \<and> flag_server (default_Flags\<lparr>flag_server := True\<rparr>)"
      by (simp add: default_Flags_def)
    have src': "addrFromString sample_env (flag_src (default_Flags\<lparr>flag_server := True\<rparr>))
     = (\<lparr>IA_of = IA 1 0xff0000000111, Host = Some (HostIPv4 [127, 0, 0, 1])\<rparr>, None)"
      using src by simp
    have dst': "addrFromString sample_env (flag_dst (default_Flags\<lparr>flag_server := True\<rparr>))
     = (\<lparr>IA_of = IA 1 0xff0000000112,
         Host = Some (HostIPv6 [0xfd, 0, 0xf0, 0x0d, 0xca, 0xfe, 0, 0, 0, 0, 0, 0,
                                0x7f, 0, 0, 0x0a])\<rparr>, None)"
      using dst by simp
    note t = main_roles [OF src' dst', of sample_state, THEN conjunct2, THEN conjunct2,
        rule_format, OF f]
    obtain s' where v: "server_role sample_env ''127.0.0.1:30255''
        \<lparr>IA_of = IA 1 0xff0000000111, Host = Some (HostIPv4 [127, 0, 0, 1])\<rparr>
        \<lparr>IA_of = IA 1 0xff0000000112,
         Host = Some (HostIPv6 [0xfd, 0, 0xf0, 0x0d, 0xca, 0xfe, 0, 0, 0, 0, 0, 0,
                                0x7f, 0, 0, 0x0a])\<rparr> sample_state = (Ok (), s')"
      using sample_server_role [of sample_state] by (metis prod.collapse)
    from t [THEN conjunct1] v
    have m: "main sample_env (default_Flags\<lparr>flag_server := True\<rparr>) sample_state
               = (Returned, s')"
      by (simp add: sc)
    from t [THEN conjunct2, rule_format, OF m] r0 m show ?thesis by simp
  qed
  from 1 2 3 show ?thesis by blast
qed

text \<open>
  Without the condition on the endpoint strings the roles need not run: given neither
  flag and a source address that does not parse, the driver prints the error and the
  defaults and exits with status 1, with no call to the daemon and no role run.
\<close>

theorem main_neither_flag_no_role_counterexample:
  "\<not> flag_client (default_Flags\<lparr>flag_src := ''127.0.0.1''\<rparr>)
   \<and> \<not> flag_server (default_Flags\<lparr>flag_src := ''127.0.0.1''\<rparr>)
   \<and> main sample_env (default_Flags\<lparr>flag_src := ''127.0.0.1''\<rparr>) sample_state
       = (Exited 1,
          \<lparr>world = 0, trace = [],
           stdout = [Println (Errorf ''no valid SCION address: %q'' ''127.0.0.1''),
                     PrintDefaults]\<rparr>)
   \<and> roles_run (snd (main sample_env (default_Flags\<lparr>flag_src := ''127.0.0.1''\<rparr>)
        sample_state)) = []"
proof -
  have "addrRegexp_FindStringSubmatch ''127.0.0.1'' = None"
    by (simp add: addrRegexp_FindStringSubmatch_def is_digit_def Let_def)
  then have "addrFromString sample_env ''127.0.0.1''
      = (zero_SCIONAddress, Some (Errorf ''no valid SCION address: %q'' ''127.0.0.1''))"
    by (simp add: addrFromString_def)
  then show ?thesis
    by (simp add: main_def default_Flags_def sample_state_def roles_run_def
        List.map_filter_def role_of_def)
qed

end
